theory Spec2Isabelle
  imports Complex_Main
begin

section \<open>JavaScript values\<close>

text \<open>
  The library is dynamically typed: every argument, payload and parameter is a JavaScript
  value. The universe below covers what the library's code can tell apart. Numbers are the
  integral ones (\<open>Num\<close>) and \<open>NaN\<close>; strings are lists of code units below 256
  (the date pattern, whose class \<open>\s\<close> reaches beyond them, is matched on lists of
  arbitrary UTF-16 code units);
  an object is the list of its enumerable own properties in \<open>for ... in\<close> order, with
  distinct keys; \<open>ErrorObj m\<close> is \<open>new Error(m)\<close>. Functions are not values of this
  type: a callback argument has the type \<open>callback\<close> further down.
\<close>

datatype jsval =
    Undefined
  | Null
  | NaN
  | Bool bool
  | Num int
  | Str string
  | Arr "jsval list"
  | Obj "(string \<times> jsval) list"
  | ErrorObj string

text \<open>ToBoolean: what \<open>if (v)\<close>, \<open>!v\<close>, \<open>v || d\<close> and \<open>v && w\<close> test.\<close>

fun truthy :: "jsval \<Rightarrow> bool" where
  "truthy Undefined = False"
| "truthy Null = False"
| "truthy NaN = False"
| "truthy (Bool b) = b"
| "truthy (Num n) = (n \<noteq> 0)"
| "truthy (Str s) = (s \<noteq> [])"
| "truthy (Arr xs) = True"
| "truthy (Obj kvs) = True"
| "truthy (ErrorObj m) = True"

definition js_or :: "jsval \<Rightarrow> jsval \<Rightarrow> jsval" where
  "js_or a b = (if truthy a then a else b)"

fun typeof :: "jsval \<Rightarrow> string" where
  "typeof Undefined = ''undefined''"
| "typeof Null = ''object''"
| "typeof NaN = ''number''"
| "typeof (Bool b) = ''boolean''"
| "typeof (Num n) = ''number''"
| "typeof (Str s) = ''string''"
| "typeof (Arr xs) = ''object''"
| "typeof (Obj kvs) = ''object''"
| "typeof (ErrorObj m) = ''object''"

subsection \<open>Conversion to string\<close>

definition digit_char :: "nat \<Rightarrow> char" where
  "digit_char d = ''0123456789ABCDEF'' ! d"

fun string_of_nat :: "nat \<Rightarrow> string" where
  "string_of_nat n =
     (if n < 10 then [digit_char n]
      else string_of_nat (n div 10) @ [digit_char (n mod 10)])"

declare string_of_nat.simps [simp del]

definition string_of_int :: "int \<Rightarrow> string" where
  "string_of_int i =
     (if i < 0 then ''-'' @ string_of_nat (nat (- i)) else string_of_nat (nat i))"

text \<open>\<open>Array.prototype.join\<close> on an array of strings.\<close>

fun join :: "string \<Rightarrow> string list \<Rightarrow> string" where
  "join sep [] = []"
| "join sep [x] = x"
| "join sep (x # y # ys) = x @ sep @ join sep (y # ys)"

text \<open>
  ToString, as string concatenation with \<open>+\<close> applies it. An array prints its elements
  joined by commas, \<open>null\<close> and \<open>undefined\<close> elements as the empty string; a plain
  object prints as \<open>[object Object]\<close>. (A number prints in plain decimal: integers of
  magnitude below \<open>10^21\<close>.)
\<close>

fun toString :: "jsval \<Rightarrow> string"
  and elements_toString :: "jsval list \<Rightarrow> string list" where
  "toString Undefined = ''undefined''"
| "toString Null = ''null''"
| "toString NaN = ''NaN''"
| "toString (Bool b) = (if b then ''true'' else ''false'')"
| "toString (Num n) = string_of_int n"
| "toString (Str s) = s"
| "toString (Arr xs) = join '','' (elements_toString xs)"
| "toString (Obj kvs) = ''[object Object]''"
| "toString (ErrorObj m) = (if m = [] then ''Error'' else ''Error: '' @ m)"
| "elements_toString [] = []"
| "elements_toString (x # xs) =
     (if x = Undefined \<or> x = Null then [] else toString x) # elements_toString xs"

subsection \<open>Property enumeration\<close>

text \<open>
  The pairs \<open>(k, v[k])\<close> that \<open>for (k in v)\<close> visits, in order: the properties of an
  object, the indices of an array or of a string; nothing for any other value
  (\<open>null\<close> included, and an Error object, whose properties are not enumerable).
\<close>

fun for_in :: "jsval \<Rightarrow> (string \<times> jsval) list" where
  "for_in (Obj kvs) = kvs"
| "for_in (Arr xs) = zip (map string_of_nat [0..<length xs]) xs"
| "for_in (Str s) = zip (map string_of_nat [0..<length s]) (map (\<lambda>c. Str [c]) s)"
| "for_in v = []"

section \<open>Query Encoder\<close>

subsection \<open>The platform's \<open>encodeURI\<close>\<close>

text \<open>
  \<open>encodeURI\<close> (ECMAScript, 19.2.6.4) leaves the reserved characters
  \<open>; / ? : @ & = + $ ,\<close>, the unreserved ones (letters, digits,
  \<open>- _ . ! ~ * ' ( )\<close>) and \<open>#\<close> as they are, and replaces every other code unit by
  the percent-escapes of its UTF-8 bytes, in upper-case hexadecimal: one byte below 128,
  two bytes from 128 to 255.
\<close>

definition is_digit :: "char \<Rightarrow> bool" where
  "is_digit c = (let n = (of_char c :: nat) in 48 \<le> n \<and> n \<le> 57)"

definition is_alpha :: "char \<Rightarrow> bool" where
  "is_alpha c =
     (let n = (of_char c :: nat) in (65 \<le> n \<and> n \<le> 90) \<or> (97 \<le> n \<and> n \<le> 122))"

definition uri_unescaped :: "char \<Rightarrow> bool" where
  "uri_unescaped c =
     (is_alpha c \<or> is_digit c \<or> c \<in> set '';/?:@&=+$,-_.!~*()#'' \<or> c = CHR 0x27)"

definition percent :: "nat \<Rightarrow> string" where
  "percent b = [CHR ''%'', digit_char (b div 16), digit_char (b mod 16)]"

definition encodeURI_unit :: "char \<Rightarrow> string" where
  "encodeURI_unit c =
     (if uri_unescaped c then [c]
      else let n = (of_char c :: nat) in
        if n < 128 then percent n
        else percent (192 + n div 64) @ percent (128 + n mod 64))"

definition encodeURI :: "string \<Rightarrow> string" where
  "encodeURI s = concat (map encodeURI_unit s)"

subsection \<open>\<open>dataToQueryString\<close>\<close>

text \<open>
  \<^verbatim>\<open>
  function dataToQueryString(data) {
      var queryParts = [];
      var item;
      for (item in data) {
          if ( typeof data[item] === 'object' ) {
              var subItem;
              for (subItem in data[item]) {
                  queryParts.push(item + '[' + subItem + ']=' + data[item][subItem]);
              }
          }
          else {
              queryParts.push(item + "=" + data[item]);
          }
      }
      var query = encodeURI(queryParts.join('&'));
      return query;
  }
  \<close>
  The two loops push onto \<open>queryParts\<close>; \<open>push_subItems\<close> is the inner loop,
  \<open>push_item\<close> the body of the outer one.
\<close>

definition push_subItems :: "string \<Rightarrow> jsval \<Rightarrow> string list \<Rightarrow> string list" where
  "push_subItems item v queryParts =
     fold (\<lambda>(subItem, w) qp. qp @ [item @ ''['' @ subItem @ '']='' @ toString w])
       (for_in v) queryParts"

definition push_item :: "string \<times> jsval \<Rightarrow> string list \<Rightarrow> string list" where
  "push_item = (\<lambda>(item, v) queryParts.
     if typeof v = ''object'' then push_subItems item v queryParts
     else queryParts @ [item @ ''='' @ toString v])"

definition queryParts_of :: "jsval \<Rightarrow> string list" where
  "queryParts_of data = fold push_item (for_in data) []"

definition dataToQueryString :: "jsval \<Rightarrow> string" where
  "dataToQueryString data = encodeURI (join ''&'' (queryParts_of data))"

subsection \<open>The encoder as the specification words it\<close>

text \<open>
  The reference definition of \<open>encode\<close>, following the specification and not the code:
  a flat-mapping entry yields one \<open>key[subkey]=value\<close> segment per inner entry, any
  other entry yields \<open>key=value\<close>; the segments are joined with \<open>&\<close> in order and the
  joined string is URI-encoded once.
\<close>

definition is_scalar :: "jsval \<Rightarrow> bool" where
  "is_scalar v = (case v of Bool b \<Rightarrow> True | Num n \<Rightarrow> True | NaN \<Rightarrow> True | Str s \<Rightarrow> True | _ \<Rightarrow> False)"

definition is_flat_mapping :: "jsval \<Rightarrow> bool" where
  "is_flat_mapping v = (case v of Obj kvs \<Rightarrow> list_all (\<lambda>(k, w). is_scalar w) kvs | _ \<Rightarrow> False)"

definition encode_segments :: "string \<times> jsval \<Rightarrow> string list" where
  "encode_segments = (\<lambda>(key, v).
     case v of
       Obj kvs \<Rightarrow> map (\<lambda>(subkey, w). key @ ''['' @ subkey @ '']='' @ toString w) kvs
     | _ \<Rightarrow> [key @ ''='' @ toString v])"

definition encode_reference :: "(string \<times> jsval) list \<Rightarrow> string" where
  "encode_reference m = encodeURI (join ''&'' (concat (map encode_segments m)))"

definition is_eq_or_amp :: "char \<Rightarrow> bool" where
  "is_eq_or_amp c = (c = CHR ''='' \<or> c = CHR ''&'')"


section \<open>Numbers, comparison and property access\<close>

text \<open>
  A Number is \<open>NaN\<close>, an infinity, or a finite double, kept as the rational it
  equals. \<open>to_double\<close> is the Number value of a real: the nearest double, ties to the
  even significand (53 bits; exponents from \<open>-1022\<close>, below which the spacing stays
  \<open>2^-1074\<close>), an infinity from \<open>2^1024\<close> on, zero below half the least double.
\<close>

datatype jsnum = NaNnum | NegInf | Fin rat | PosInf

function bit_length :: "int \<Rightarrow> int" where
  "bit_length n = (if n \<le> 0 then 0 else 1 + bit_length (n div 2))"
  by pat_completeness auto
termination
  by (relation "measure nat") auto

declare bit_length.simps [simp del]

definition pow2 :: "int \<Rightarrow> rat" where
  "pow2 k = (if 0 \<le> k then 2 ^ nat k else 1 / 2 ^ nat (- k))"

definition round_half_even :: "rat \<Rightarrow> int" where
  "round_half_even x =
     (let f = \<lfloor>x\<rfloor>; d = x - of_int f in
      if d < 1 / 2 then f else if 1 / 2 < d then f + 1 else if even f then f else f + 1)"

definition to_double :: "rat \<Rightarrow> jsnum" where
  "to_double r =
     (if r = 0 then Fin 0
      else
        let a = \<bar>r\<bar>;
            (p, q) = quotient_of a;
            d = bit_length p - bit_length q;
            e = (if pow2 d \<le> a then d else d - 1);
            k = max e (- 1022) - 52;
            v = of_int (round_half_even (a / pow2 k)) * pow2 k
        in if pow2 1024 \<le> v then (if r < 0 then NegInf else PosInf)
           else Fin (if r < 0 then - v else v))"

text \<open>
  The white space of the language (WhiteSpace and LineTerminator), by code unit: what
  the class \<open>\s\<close> of a regular expression matches and what ToNumber strips from a
  string. These are U+0009 to U+000D, U+0020, U+00A0, U+1680, U+2000 to U+200A, U+2028,
  U+2029, U+202F, U+205F, U+3000 and U+FEFF.
\<close>

definition white_space :: "int \<Rightarrow> bool" where
  "white_space u =
     (u \<in> {9, 10, 11, 12, 13, 32, 160, 5760, 8232, 8233, 8239, 8287, 12288, 65279} \<or>
      (8192 \<le> u \<and> u \<le> 8202))"

definition is_space :: "char \<Rightarrow> bool" where
  "is_space c = white_space (of_char c)"

text \<open>
  ToNumber on a string converts by the grammar of numeric string literals (ECMAScript,
  7.1.4.1): surrounding white space is dropped, the empty string is \<open>0\<close>, then a
  hexadecimal, octal or binary integer, or an optionally signed \<open>Infinity\<close> or
  decimal literal with optional fraction and exponent; the result is the Number value of
  the literal's mathematical value.
\<close>

definition trim :: "string \<Rightarrow> string" where
  "trim s = rev (dropWhile is_space (rev (dropWhile is_space s)))"

definition digit_value :: "char \<Rightarrow> nat" where
  "digit_value c =
     (let n = (of_char c :: nat) in
      if 48 \<le> n \<and> n \<le> 57 then n - 48
      else if 65 \<le> n \<and> n \<le> 70 then n - 55
      else if 97 \<le> n \<and> n \<le> 102 then n - 87
      else 16)"

definition nat_of_digits :: "nat \<Rightarrow> string \<Rightarrow> nat" where
  "nat_of_digits base ds = fold (\<lambda>c n. base * n + digit_value c) ds 0"

definition radix_literal :: "nat \<Rightarrow> string \<Rightarrow> jsnum" where
  "radix_literal base ds =
     (if ds \<noteq> [] \<and> list_all (\<lambda>c. digit_value c < base) ds
      then to_double (of_nat (nat_of_digits base ds)) else NaNnum)"

text \<open>The exponent part of a decimal literal: \<open>None\<close> when it is ill-formed.\<close>

definition exponent_part :: "string \<Rightarrow> int option" where
  "exponent_part s =
     (case s of
        [] \<Rightarrow> Some 0
      | c # r \<Rightarrow>
          if c = CHR ''e'' \<or> c = CHR ''E'' then
            (let (neg, ds) =
               (case r of
                  [] \<Rightarrow> (False, [])
                | d # r' \<Rightarrow>
                    if d = CHR ''-'' then (True, r')
                    else if d = CHR ''+'' then (False, r') else (False, r))
             in if ds \<noteq> [] \<and> list_all is_digit ds
                then Some ((if neg then - 1 else 1) * int (nat_of_digits 10 ds))
                else None)
          else None)"

definition scale10 :: "rat \<Rightarrow> int \<Rightarrow> rat" where
  "scale10 r e = (if 0 \<le> e then r * 10 ^ nat e else r / 10 ^ nat (- e))"

definition unsigned_decimal :: "string \<Rightarrow> rat option" where
  "unsigned_decimal s =
     (let ip = takeWhile is_digit s; r = dropWhile is_digit s;
          (fp, r') =
            (case r of
               [] \<Rightarrow> ([], [])
             | c # t \<Rightarrow>
                 if c = CHR ''.'' then (takeWhile is_digit t, dropWhile is_digit t)
                 else ([], r))
      in if ip = [] \<and> fp = [] then None
         else case exponent_part r' of
                None \<Rightarrow> None
              | Some e \<Rightarrow>
                  Some (scale10
                    (of_nat (nat_of_digits 10 ip) +
                     of_nat (nat_of_digits 10 fp) / 10 ^ length fp) e))"

definition signed_decimal :: "string \<Rightarrow> jsnum" where
  "signed_decimal s =
     (let (neg, u) =
        (case s of
           [] \<Rightarrow> (False, [])
         | c # r \<Rightarrow>
             if c = CHR ''-'' then (True, r)
             else if c = CHR ''+'' then (False, r) else (False, s))
      in if u = ''Infinity'' then (if neg then NegInf else PosInf)
         else case unsigned_decimal u of
                None \<Rightarrow> NaNnum
              | Some r \<Rightarrow> to_double (if neg then - r else r))"

definition string_to_number :: "string \<Rightarrow> jsnum" where
  "string_to_number s =
     (let t = trim s in
      if t = [] then Fin 0
      else if take 2 t = ''0x'' \<or> take 2 t = ''0X'' then radix_literal 16 (drop 2 t)
      else if take 2 t = ''0o'' \<or> take 2 t = ''0O'' then radix_literal 8 (drop 2 t)
      else if take 2 t = ''0b'' \<or> take 2 t = ''0B'' then radix_literal 2 (drop 2 t)
      else signed_decimal t)"

fun to_number :: "jsval \<Rightarrow> jsnum" where
  "to_number Undefined = NaNnum"
| "to_number Null = Fin 0"
| "to_number NaN = NaNnum"
| "to_number (Bool b) = Fin (if b then 1 else 0)"
| "to_number (Num n) = Fin (of_int n)"
| "to_number (Str s) = string_to_number s"
| "to_number (Arr xs) = string_to_number (toString (Arr xs))"
| "to_number (Obj kvs) = NaNnum"
| "to_number (ErrorObj m) = NaNnum"

text \<open>The global \<open>isNaN(v)\<close>.\<close>

definition isNaN :: "jsval \<Rightarrow> bool" where
  "isNaN v = (to_number v = NaNnum)"

text \<open>\<open>v > n\<close> and \<open>v <= n\<close> against a number \<open>n\<close>, on the Number values: false
  when \<open>v\<close> converts to \<open>NaN\<close>.\<close>

definition js_gt :: "jsval \<Rightarrow> int \<Rightarrow> bool" where
  "js_gt v n = (case to_number v of Fin r \<Rightarrow> of_int n < r | PosInf \<Rightarrow> True | _ \<Rightarrow> False)"

definition js_le :: "jsval \<Rightarrow> int \<Rightarrow> bool" where
  "js_le v n = (case to_number v of Fin r \<Rightarrow> r \<le> of_int n | NegInf \<Rightarrow> True | _ \<Rightarrow> False)"

text \<open>
  \<open>v == p\<close> for a primitive \<open>p\<close> (the library compares with \<open>null\<close>, \<open>0\<close> and
  \<open>'error'\<close> only): \<open>null\<close> and \<open>undefined\<close> equal each other and nothing else; an
  object operand is first converted to its string; two strings compare as strings; any
  other pair compares as numbers.
\<close>

definition is_object :: "jsval \<Rightarrow> bool" where
  "is_object v = (case v of Arr xs \<Rightarrow> True | Obj kvs \<Rightarrow> True | ErrorObj m \<Rightarrow> True | _ \<Rightarrow> False)"

definition to_primitive :: "jsval \<Rightarrow> jsval" where
  "to_primitive v = (if is_object v then Str (toString v) else v)"

definition nullish :: "jsval \<Rightarrow> bool" where
  "nullish v = (v = Null \<or> v = Undefined)"

definition js_loose_eq :: "jsval \<Rightarrow> jsval \<Rightarrow> bool" where
  "js_loose_eq v p =
     (if nullish v \<or> nullish p then nullish v \<and> nullish p
      else case (to_primitive v, p) of
             (Str s, Str t) \<Rightarrow> s = t
           | (a, b) \<Rightarrow> to_number a \<noteq> NaNnum \<and> to_number a = to_number b)"

text \<open>
  \<open>a === b\<close> for the values of two \<open>length\<close> properties. An object is strictly equal
  to itself only; the model has no references and takes two object operands as different.
\<close>

definition js_strict_eq :: "jsval \<Rightarrow> jsval \<Rightarrow> bool" where
  "js_strict_eq a b = (a = b \<and> a \<noteq> NaN \<and> \<not> is_object a)"

text \<open>
  \<open>a + b\<close>: concatenation when an operand is a string or an object (whose primitive is
  its string), addition of numbers otherwise.
\<close>

definition js_plus :: "jsval \<Rightarrow> jsval \<Rightarrow> jsval" where
  "js_plus a b =
     (if typeof a = ''string'' \<or> typeof b = ''string'' \<or> is_object a \<or> is_object b
      then Str (toString a @ toString b)
      else case (to_number a, to_number b) of
             (Fin x, Fin y) \<Rightarrow> Num (\<lfloor>x + y\<rfloor>)
           | _ \<Rightarrow> NaN)"

text \<open>
  Reading a property that is not inherited from a prototype (the library reads
  \<open>status\<close>, \<open>forms\<close>, \<open>length\<close> and its own argument names): \<open>read_prop\<close> on a value
  other than \<open>null\<close> and \<open>undefined\<close>, \<open>get_prop\<close> with the TypeError on those two.
\<close>

datatype js_error = JsError string | JsTypeError string | JsSyntaxError

definition lookup :: "(string \<times> jsval) list \<Rightarrow> string \<Rightarrow> jsval" where
  "lookup kvs name = (case map_of kvs name of Some v \<Rightarrow> v | None \<Rightarrow> Undefined)"

fun read_prop :: "jsval \<Rightarrow> string \<Rightarrow> jsval" where
  "read_prop (Obj kvs) name = lookup kvs name"
| "read_prop (Arr xs) name = (if name = ''length'' then Num (int (length xs)) else Undefined)"
| "read_prop (Str s) name = (if name = ''length'' then Num (int (length s)) else Undefined)"
| "read_prop v name = Undefined"

definition get_prop :: "jsval \<Rightarrow> string \<Rightarrow> js_error + jsval" where
  "get_prop v name =
     (if nullish v
      then Inl (JsTypeError (''Cannot read properties of '' @ toString v))
      else Inr (read_prop v name))"

text \<open>\<open>v[i]\<close> for an index \<open>i\<close>: out of range it is \<open>undefined\<close>.\<close>

fun element :: "jsval \<Rightarrow> nat \<Rightarrow> jsval" where
  "element (Arr xs) i = (if i < length xs then xs ! i else Undefined)"
| "element (Str s) i = (if i < length s then Str [s ! i] else Undefined)"
| "element (Obj kvs) i = lookup kvs (string_of_nat i)"
| "element v i = Undefined"

text \<open>
  \<open>obj[key] = v\<close> on an object whose keys are not array indices: an existing property
  keeps its place in the enumeration order, a new one goes last.
\<close>

fun obj_set :: "(string \<times> jsval) list \<Rightarrow> string \<Rightarrow> jsval \<Rightarrow> (string \<times> jsval) list" where
  "obj_set [] key v = [(key, v)]"
| "obj_set ((k, w) # kvs) key v =
     (if k = key then (k, v) # kvs else (k, w) # obj_set kvs key v)"

text \<open>
  \<open>String.prototype.toUpperCase\<close> on the ASCII letters; other code units are kept
  (none of them turns into the letters of a verb or of a sort direction, the only strings
  the library compares an upper-cased string with).
\<close>

definition upper_char :: "char \<Rightarrow> char" where
  "upper_char c =
     (let n = (of_char c :: nat) in
      if 97 \<le> n \<and> n \<le> 122 then ''ABCDEFGHIJKLMNOPQRSTUVWXYZ'' ! (n - 97) else c)"

definition toUpperCase :: "string \<Rightarrow> string" where
  "toUpperCase s = map upper_char s"

section \<open>The host platform\<close>

text \<open>
  \<open>JSON.parse\<close> and \<open>Date.parse\<close> belong to the host platform, not to the library.
  They are parameters of the model: \<open>JSON_parse\<close> is \<open>None\<close> where \<open>JSON.parse\<close>
  throws its SyntaxError; \<open>Date_parse\<close> is the time value in milliseconds since the
  epoch, \<open>None\<close> where \<open>Date.parse\<close> returns \<open>NaN\<close>.
\<close>

record platform =
  JSON_parse :: "string \<Rightarrow> jsval option"
  Date_parse :: "string \<Rightarrow> int option"

section \<open>Date Validator\<close>

text \<open>
  \<^verbatim>\<open>
  function strtotime(dateString) {
      var ts = Date.parse(dateString);
      if ( ts < 0 || isNaN(ts) )
          return null;
      return ts / 1000;
  }
  \<close>
  \<open>None\<close> is the \<open>null\<close> result.
\<close>

definition strtotime :: "platform \<Rightarrow> jsval \<Rightarrow> rat option" where
  "strtotime pf dateString =
     (case Date_parse pf (toString dateString) of
        None \<Rightarrow> None
      | Some ts \<Rightarrow> if ts < 0 then None else Some (of_int ts / 1000))"

text \<open>
  \<^verbatim>\<open>
  function testDateFormat(timeString, formatExp){
      formatExp = formatExp || /^\d{4}-\d{1,2}-\d{1,2}\s\d{1,2}:\d{1,2}:\d{1,2}$/;
      return timeString.match(formatExp);
  }
  \<close>
  The default pattern is a sequence of repeated atoms between \<open>^\<close> and \<open>$\<close>:
  \<open>(a, lo, hi)\<close> is \<open>a{lo,hi}\<close>, and a bare atom is \<open>a{1,1}\<close>. \<open>match_here\<close> is the
  backtracking match of such a sequence against a whole string, longest repetition first.
  The match works on the UTF-16 code units of the string (a code unit is held as the
  integer it is, \<open>0\<close> to \<open>65535\<close>), \<open>\d\<close> being the ten ASCII digits and \<open>\s\<close> the
  white space above. A regular expression passed by the caller is
  the function \<open>match\<close> computes with it; the result is the match array, \<open>None\<close> for
  \<open>null\<close>. \<open>testDateFormat_string\<close> is the function on a string argument given by
  its code units, any JavaScript string; \<open>testDateFormat\<close> is the function on a value
  of \<open>jsval\<close>, with the TypeError of \<open>match\<close> on a value that is not a string.
\<close>

type_synonym code_units = "int list"

definition units :: "string \<Rightarrow> code_units" where
  "units s = map of_char s"

definition decimal_digit :: "int \<Rightarrow> bool" where
  "decimal_digit u = (48 \<le> u \<and> u \<le> 57)"

datatype atom = Digit | Space | Chr char

fun atom_matches :: "atom \<Rightarrow> int \<Rightarrow> bool" where
  "atom_matches Digit u = decimal_digit u"
| "atom_matches Space u = white_space u"
| "atom_matches (Chr d) u = (u = of_char d)"

fun match_here :: "(atom \<times> nat \<times> nat) list \<Rightarrow> code_units \<Rightarrow> bool" where
  "match_here [] s = (s = [])"
| "match_here ((a, lo, hi) # ps) s =
     list_ex (\<lambda>k. k \<le> length s \<and> list_all (atom_matches a) (take k s) \<and>
                  match_here ps (drop k s))
       (rev [lo..<Suc hi])"

definition default_formatExp :: "(atom \<times> nat \<times> nat) list" where
  "default_formatExp =
     [(Digit, 4, 4), (Chr (CHR ''-''), 1, 1), (Digit, 1, 2), (Chr (CHR ''-''), 1, 1),
      (Digit, 1, 2), (Space, 1, 1),
      (Digit, 1, 2), (Chr (CHR '':''), 1, 1), (Digit, 1, 2), (Chr (CHR '':''), 1, 1),
      (Digit, 1, 2)]"

definition match_default :: "code_units \<Rightarrow> code_units list option" where
  "match_default s = (if match_here default_formatExp s then Some [s] else None)"

definition testDateFormat_string ::
  "code_units \<Rightarrow> (code_units \<Rightarrow> code_units list option) option \<Rightarrow> code_units list option" where
  "testDateFormat_string timeString formatExp =
     (let matcher = (case formatExp of None \<Rightarrow> match_default | Some rx \<Rightarrow> rx)
      in matcher timeString)"

definition testDateFormat ::
  "jsval \<Rightarrow> (code_units \<Rightarrow> code_units list option) option \<Rightarrow>
   js_error + code_units list option" where
  "testDateFormat timeString formatExp =
     (case timeString of
        Str s \<Rightarrow> Inr (testDateFormat_string (units s) formatExp)
      | _ \<Rightarrow> Inl (JsTypeError ''timeString.match is not a function''))"

text \<open>
  The shape the default pattern describes: \<open>digits lo hi p\<close> says that \<open>p\<close> is
  between \<open>lo\<close> and \<open>hi\<close> decimal digits.
\<close>

definition digits :: "nat \<Rightarrow> nat \<Rightarrow> code_units \<Rightarrow> bool" where
  "digits lo hi p = (lo \<le> length p \<and> length p \<le> hi \<and> list_all decimal_digit p)"

section \<open>Request Executor\<close>

text \<open>
  \<^verbatim>\<open>
  var FsAPI = function(accessToken, host, port, path) {
      this.accessToken = accessToken;
      this.apiPort = port || 443;
      this.apiHost = host || 'www.formstack.com';
      this.apiPath = path || '/api/v2/';
  };
  \<close>
\<close>

record FsAPI =
  accessToken :: jsval
  apiPort :: jsval
  apiHost :: jsval
  apiPath :: jsval

definition new_FsAPI :: "jsval \<Rightarrow> jsval \<Rightarrow> jsval \<Rightarrow> jsval \<Rightarrow> FsAPI" where
  "new_FsAPI token host port path =
     \<lparr> accessToken = token,
       apiPort = js_or port (Num 443),
       apiHost = js_or host (Str ''www.formstack.com''),
       apiPath = js_or path (Str ''/api/v2/'') \<rparr>"

definition validVerbs :: "string list" where
  "validVerbs = [''GET'', ''PUT'', ''POST'', ''DELETE'']"

definition validFieldTypes :: "string list" where
  "validFieldTypes =
     [''text'', ''textarea'', ''name'', ''address'', ''email'', ''phone'', ''creditcard'',
      ''datetime'', ''file'', ''number'', ''select'', ''radio'', ''checkbox'', ''matrix'',
      ''richtext'', ''embed'', ''product'', ''section'']"

text \<open>
  What a call does is an \<open>outcome\<close>: it throws synchronously, before \<open>https.request\<close>
  is reached (\<open>Threw\<close>), or it issues one request (\<open>Requested\<close>) and the handlers of
  that request run when the transport answers. The answer of the transport is the
  \<open>reply\<close>, an input of the model: the \<open>error\<close> event of the request, or a response
  with its status code and the chunks of its body. What the handlers do is a
  \<open>completion\<close>: they call the caller's function with \<open>(data, err)\<close> (\<open>Delivered\<close>,
  for a caller's function that records its arguments), they print the pair because the
  caller gave no callback (\<open>Logged\<close>), or an exception escapes from the handler
  (\<open>Uncaught\<close>) and no callback is called.
\<close>

datatype completion = Delivered jsval jsval | Logged jsval jsval | Uncaught js_error

datatype callback = Fn "jsval \<Rightarrow> jsval \<Rightarrow> completion" | NotFn jsval

datatype reply = TransportError string | Response int "string list"

record http_request =
  hostname :: jsval
  port :: jsval
  path :: jsval
  http_method :: string
  headers :: "(string \<times> jsval) list"
  written :: "string option"

datatype outcome = Threw js_error | Requested http_request completion

text \<open>
  The handlers of \<open>request\<close>:
  \<^verbatim>\<open>
  var req = https.request(options, function(res) {
      if (res.statusCode < 200 || res.statusCode >= 300) {
          return callback(null, new Error('Request failed with status code: ' + res.statusCode));
      }
      var str = '';
      res.on('data', function(data) { str += data; });
      res.on('end', function() {
          var response = JSON.parse(str);
          callback(response);
      });
  });
  ...
  req.on('error', function(e) { callback(null, e); });
  \<close>
\<close>

definition on_reply :: "platform \<Rightarrow> (jsval \<Rightarrow> jsval \<Rightarrow> completion) \<Rightarrow> reply \<Rightarrow> completion" where
  "on_reply pf callback reply =
     (case reply of
        TransportError e \<Rightarrow> callback Null (ErrorObj e)
      | Response statusCode chunks \<Rightarrow>
          if statusCode < 200 \<or> statusCode \<ge> 300
          then callback Null
                 (ErrorObj (''Request failed with status code: '' @ string_of_int statusCode))
          else let str = concat chunks in
               (case JSON_parse pf str of
                  None \<Rightarrow> Uncaught JsSyntaxError
                | Some response \<Rightarrow> callback response Undefined))"

text \<open>
  \<^verbatim>\<open>
  FsAPI.prototype.request = function(endpoint, verb, args, callback) {
      if ( !endpoint ) {
          throw new Error('You must include an enpoint to request');
      }
      if ('function' != typeof callback) {
          throw new Error('You must provide a callback function');
      }
      verb = verb || 'GET';
      args = args || null;
      verb = verb.toUpperCase();
      if ( validVerbs.indexOf(verb) === -1) {
          throw new Error('Your requests must be performed with one of the following verbs: '
              + validVerbs.join(','));
      }
      var postData = null;
      if (args)
          postData = dataToQueryString(args);
      var options = {
          hostname: this.apiHost,
          port: this.apiPort,
          path: this.apiPath + endpoint,
          method: verb,
          headers: { 'Authorization': 'Bearer ' + this.accessToken }
      };
      if (postData)
          options.headers["Content-Length"] = postData.length;
      var req = https.request(options, ...);
      if (postData)
          req.write(postData);
      req.end();
      ...
  };
  \<close>
  A truthy \<open>verb\<close> that is not a string has no \<open>toUpperCase\<close>: the call is a TypeError.
\<close>

definition request ::
  "platform \<Rightarrow> FsAPI \<Rightarrow> jsval \<Rightarrow> jsval \<Rightarrow> jsval \<Rightarrow> callback \<Rightarrow> reply \<Rightarrow> outcome" where
  "request pf this endpoint verb0 args0 callback reply =
     (if \<not> truthy endpoint then Threw (JsError ''You must include an enpoint to request'')
      else case callback of
        NotFn c \<Rightarrow> Threw (JsError ''You must provide a callback function'')
      | Fn cb \<Rightarrow>
         (let args = js_or args0 Null in
          case js_or verb0 (Str ''GET'') of
            Str v \<Rightarrow>
              (let verb1 = toUpperCase v in
               if verb1 \<notin> set validVerbs
               then Threw (JsError
                 (''Your requests must be performed with one of the following verbs: '' @
                  join '','' validVerbs))
               else
                 let postData = (if truthy args then Some (dataToQueryString args) else None);
                     sends = (case postData of None \<Rightarrow> False | Some q \<Rightarrow> q \<noteq> []);
                     req = \<lparr> hostname = apiHost this,
                             port = apiPort this,
                             path = js_plus (apiPath this) endpoint,
                             http_method = verb1,
                             headers =
                               (''Authorization'', js_plus (Str ''Bearer '') (accessToken this)) #
                               (if sends
                                then [(''Content-Length'', Num (int (length (the postData))))]
                                else []),
                             written = (if sends then postData else None) \<rparr>
                 in Requested req (on_reply pf cb reply))
          | _ \<Rightarrow> Threw (JsTypeError ''verb.toUpperCase is not a function'')))"

section \<open>Resource Methods\<close>

text \<open>
  Every method but \<open>getForms\<close> hands \<open>request\<close> the same handler:
  \<^verbatim>\<open>
  function(data, err) {
      if (data && data.status == 'error'){
          err = data;
          data = null;
      }
      if (callback) {
          callback(data, err);
      }
      else {
          console.log('data', data);
          console.error('error', err);
      }
  }
  \<close>
  \<open>invoke\<close> is its second statement: a truthy \<open>callback\<close> that is not a function
  cannot be called.
\<close>

definition api_error :: "jsval \<Rightarrow> bool" where
  "api_error data = (truthy data \<and> js_loose_eq (read_prop data ''status'') (Str ''error''))"

definition invoke :: "callback \<Rightarrow> jsval \<Rightarrow> jsval \<Rightarrow> completion" where
  "invoke callback data err =
     (case callback of
        Fn f \<Rightarrow> f data err
      | NotFn c \<Rightarrow>
          if truthy c then Uncaught (JsTypeError ''callback is not a function'')
          else Logged data err)"

definition relay :: "callback \<Rightarrow> jsval \<Rightarrow> jsval \<Rightarrow> completion" where
  "relay callback data0 err0 =
     (let (data, err) = (if api_error data0 then (Null, data0) else (data0, err0))
      in invoke callback data err)"

text \<open>
  \<^verbatim>\<open>
  FsAPI.prototype.getForms = function(args, callback) {
      args = args || {};
      args.folderOrganized = args.folderOrganized || false;
      var params = { folders: args.folderOrganized ? 1 : 0 };
      this.request('form.json', 'GET', params, function(data, err) {
          if (data && data.status == 'error'){
              err = data;
              data = null;
          }
          if (callback)
              callback(data.forms, err);
          else {
              console.log('data', data.forms);
              console.error('error', err);
          }
      });
  };
  \<close>
  Both branches of the handler read \<open>data.forms\<close>. The \<open>args\<close> of a method is an object
  (the list of its properties) or is left out (\<open>None\<close>, any falsy value).
\<close>

type_synonym args = "(string \<times> jsval) list option"

definition args_or_empty :: "args \<Rightarrow> (string \<times> jsval) list" where
  "args_or_empty args = (case args of None \<Rightarrow> [] | Some a \<Rightarrow> a)"

definition getForms_handler :: "callback \<Rightarrow> jsval \<Rightarrow> jsval \<Rightarrow> completion" where
  "getForms_handler callback data0 err0 =
     (let (data, err) = (if api_error data0 then (Null, data0) else (data0, err0))
      in case get_prop data ''forms'' of
           Inl e \<Rightarrow> Uncaught e
         | Inr forms \<Rightarrow> invoke callback forms err)"

definition getForms :: "platform \<Rightarrow> FsAPI \<Rightarrow> args \<Rightarrow> callback \<Rightarrow> reply \<Rightarrow> outcome" where
  "getForms pf this args0 callback reply =
     (let args = args_or_empty args0;
          folderOrganized = js_or (lookup args ''folderOrganized'') (Bool False);
          params = [(''folders'', Num (if truthy folderOrganized then 1 else 0))]
      in request pf this (Str ''form.json'') (Str ''GET'') (Obj params)
           (Fn (getForms_handler callback)) reply)"

text \<open>
  \<^verbatim>\<open>
  FsAPI.prototype.getFormDetails = function(formId, callback) {
      if ( isNaN(formId) ) {
          throw new Error('Form ID is required and must be numeric');
      }
      this.request('form/'+formId, 'GET', null, function(data, err) { ... });
  };
  \<close>
  \<open>copyForm\<close>, \<open>getFields\<close> and \<open>deleteSubmission\<close> have the same form.
\<close>

definition getFormDetails :: "platform \<Rightarrow> FsAPI \<Rightarrow> jsval \<Rightarrow> callback \<Rightarrow> reply \<Rightarrow> outcome" where
  "getFormDetails pf this formId callback reply =
     (if isNaN formId then Threw (JsError ''Form ID is required and must be numeric'')
      else request pf this (js_plus (Str ''form/'') formId) (Str ''GET'') Null
             (Fn (relay callback)) reply)"

definition copyForm :: "platform \<Rightarrow> FsAPI \<Rightarrow> jsval \<Rightarrow> callback \<Rightarrow> reply \<Rightarrow> outcome" where
  "copyForm pf this formId callback reply =
     (if isNaN formId then Threw (JsError ''Form ID is required and must be numeric'')
      else request pf this (js_plus (js_plus (Str ''form/'') formId) (Str ''/copy''))
             (Str ''POST'') (Obj []) (Fn (relay callback)) reply)"

definition getFields :: "platform \<Rightarrow> FsAPI \<Rightarrow> jsval \<Rightarrow> callback \<Rightarrow> reply \<Rightarrow> outcome" where
  "getFields pf this formId callback reply =
     (if isNaN formId then Threw (JsError ''Form ID is required and must be numeric'')
      else request pf this (js_plus (js_plus (Str ''form/'') formId) (Str ''/field''))
             (Str ''GET'') Null (Fn (relay callback)) reply)"

definition deleteSubmission :: "platform \<Rightarrow> FsAPI \<Rightarrow> jsval \<Rightarrow> callback \<Rightarrow> reply \<Rightarrow> outcome" where
  "deleteSubmission pf this submissionId callback reply =
     (if isNaN submissionId
      then Threw (JsError ''Submission ID is required and must be numeric'')
      else request pf this (js_plus (js_plus (Str ''submission/'') submissionId) (Str ''.json''))
             (Str ''DELETE'') (Obj []) (Fn (relay callback)) reply)"

text \<open>
  \<^verbatim>\<open>
  FsAPI.prototype.getSubmissionDetails = function(submissionId, args, callback) {
      if ( isNaN(submissionId) ) {
          throw new Error('Submission ID is required and must be numeric');
      }
      args = args || {};
      args.encryptionPassword = args.encryptionPassword || null;
      var params = {};
      if (args.encryptionPassword)
          params.encryption_password = args.encryptionPassword;
      this.request('submission/' + submissionId + '.json', 'GET', params, function(data, err){ ... });
  };
  \<close>
  \<open>set_if c key v\<close> is the statement \<open>if (c) params[key] = v\<close>.
\<close>

definition set_if ::
  "jsval \<Rightarrow> string \<Rightarrow> jsval \<Rightarrow> (string \<times> jsval) list \<Rightarrow> (string \<times> jsval) list" where
  "set_if c key v params = (if truthy c then obj_set params key v else params)"

definition getSubmissionDetails ::
  "platform \<Rightarrow> FsAPI \<Rightarrow> jsval \<Rightarrow> args \<Rightarrow> callback \<Rightarrow> reply \<Rightarrow> outcome" where
  "getSubmissionDetails pf this submissionId args0 callback reply =
     (if isNaN submissionId
      then Threw (JsError ''Submission ID is required and must be numeric'')
      else
        let args = args_or_empty args0;
            encryptionPassword = js_or (lookup args ''encryptionPassword'') Null;
            params = set_if encryptionPassword ''encryption_password'' encryptionPassword []
        in request pf this (js_plus (js_plus (Str ''submission/'') submissionId) (Str ''.json''))
             (Str ''GET'') (Obj params) (Fn (relay callback)) reply)"


subsection \<open>\<open>getSubmissions\<close>\<close>

text \<open>
  \<^verbatim>\<open>
  args.searchFieldIds.every(function(fId, index) {
      if ( isNaN(fId) ) {
          throw new Error('Field IDs must be numeric! ' + fId +' given');
          return false;
      }
      else {
          params['search_field_'+index] = fId;
          params['search_field_'+index] = args.searchFieldValues[index];
          return true;
      }
  });
  \<close>
  \<open>search_fields\<close> is the loop of \<open>every\<close> over the elements from \<open>index\<close> on.
\<close>

fun search_fields ::
  "jsval list \<Rightarrow> nat \<Rightarrow> jsval \<Rightarrow> (string \<times> jsval) list \<Rightarrow> js_error + (string \<times> jsval) list" where
  "search_fields [] index searchFieldValues params = Inr params"
| "search_fields (fId # rest) index searchFieldValues params =
     (if isNaN fId
      then Inl (JsError (''Field IDs must be numeric! '' @ toString fId @ '' given''))
      else
        let params1 = obj_set params (''search_field_'' @ string_of_nat index) fId;
            params2 = obj_set params1 (''search_field_'' @ string_of_nat index)
                        (element searchFieldValues index)
        in search_fields rest (Suc index) searchFieldValues params2)"

text \<open>
  \<^verbatim>\<open>
  FsAPI.prototype.getSubmissions = function(formId, args, callback) {
      if ( isNaN(formId) ) {
          throw new Error('Form ID is required and must be numeric');
      }
      args = args || {};
      args.encryptionPassword = args.encryptionPassword || null;
      args.minTime = args.minTime || null;
      args.maxTime = args.maxTime || null;
      args.searchFieldIds = args.searchFieldIds || [];
      args.searchFieldValues = args.searchFieldValues || [];
      args.pageNumber = args.pageNumber || 1;
      args.perPage = (args.perPage || args.perPage == 0) ? args.perPage : 25;
      args.sort = args.sort || 'DESC';
      args.sort = args.sort.toUpperCase();
      args.data = args.data || false;
      args.expandData = args.expandData || false;
      if ( args.minTime != null && strtotime(args.minTime) == null ){
          throw new Error('Invalid value for minTime');
      }
      if ( args.maxTime != null && strtotime(args.maxTime) == null ) {
          throw new Error('Invalid value for maxTime');
      }
      if ( args.searchFieldIds.length !== args.searchFieldValues.length ) {
          throw new Error('You must have a one to one relationship between Field ids and Field values');
      }
      if ( isNaN(args.pageNumber) ) {
          throw new Error('The pageNumber value must be numeric');
      }
      if ( isNaN(args.perPage) ) {
          throw new Error('The perPage value must be numeric');
      }
      else if (args.perPage > 100 || args.perPage <= 0) {
          throw new Error('You can only retrieve a minimum of 1 and maximum of 100 Submissions per request');
      }
      if ( ['ASC', 'DESC'].indexOf(args.sort) == -1 ){
          throw new Error('The sort parameter must be ASC or DESC');
      }
      var params = {};
      if (args.encryptionPassword) params.encryption_password = args.encryptionPassword;
      if (args.minTime) params.min_time = args.minTime;
      if (args.maxTime) params.max_time = args.maxTime;
      if (args.pageNumber) params.page = args.pageNumber;
      if (args.perPage) params.per_page = args.perPage;
      if (args.sort) params.sort = args.sort;
      if (args.data) params.data = args.data;
      if (args.expandData) params.expand_data = args.expandData;
      args.searchFieldIds.every(...);
      this.request('form/' + formId + '/submission.json', 'GET', params, function(data, err) { ... });
  };
  \<close>
  \<open>getSubmissions_params\<close> is the body from \<open>args = args || {}\<close> to the end of the
  \<open>every\<close> loop: the error it throws, or the \<open>params\<close> object it hands to
  \<open>request\<close>. \<open>getSubmissions_base\<close> is the same body up to the loop.
\<close>

definition getSubmissions_base ::
  "platform \<Rightarrow> args \<Rightarrow> js_error + (string \<times> jsval) list" where
  "getSubmissions_base pf args0 =
     (let args = args_or_empty args0;
          encryptionPassword = js_or (lookup args ''encryptionPassword'') Null;
          minTime = js_or (lookup args ''minTime'') Null;
          maxTime = js_or (lookup args ''maxTime'') Null;
          searchFieldIds = js_or (lookup args ''searchFieldIds'') (Arr []);
          searchFieldValues = js_or (lookup args ''searchFieldValues'') (Arr []);
          pageNumber = js_or (lookup args ''pageNumber'') (Num 1);
          perPage0 = lookup args ''perPage'';
          perPage = (if truthy perPage0 \<or> js_loose_eq perPage0 (Num 0) then perPage0 else Num 25)
      in case js_or (lookup args ''sort'') (Str ''DESC'') of
           Str sort0 \<Rightarrow>
             (let sort = toUpperCase sort0;
                  data = js_or (lookup args ''data'') (Bool False);
                  expandData = js_or (lookup args ''expandData'') (Bool False)
              in
              if \<not> js_loose_eq minTime Null \<and> strtotime pf minTime = None
              then Inl (JsError ''Invalid value for minTime'')
              else if \<not> js_loose_eq maxTime Null \<and> strtotime pf maxTime = None
              then Inl (JsError ''Invalid value for maxTime'')
              else if \<not> js_strict_eq (read_prop searchFieldIds ''length'')
                                        (read_prop searchFieldValues ''length'')
              then Inl (JsError
                ''You must have a one to one relationship between Field ids and Field values'')
              else if isNaN pageNumber
              then Inl (JsError ''The pageNumber value must be numeric'')
              else if isNaN perPage
              then Inl (JsError ''The perPage value must be numeric'')
              else if js_gt perPage 100 \<or> js_le perPage 0
              then Inl (JsError
                ''You can only retrieve a minimum of 1 and maximum of 100 Submissions per request'')
              else if sort \<notin> set [''ASC'', ''DESC'']
              then Inl (JsError ''The sort parameter must be ASC or DESC'')
              else
                let params = [];
                    params = set_if encryptionPassword ''encryption_password'' encryptionPassword params;
                    params = set_if minTime ''min_time'' minTime params;
                    params = set_if maxTime ''max_time'' maxTime params;
                    params = set_if pageNumber ''page'' pageNumber params;
                    params = set_if perPage ''per_page'' perPage params;
                    params = set_if (Str sort) ''sort'' (Str sort) params;
                    params = set_if data ''data'' data params;
                    params = set_if expandData ''expand_data'' expandData params
                in Inr params)
         | _ \<Rightarrow> Inl (JsTypeError ''args.sort.toUpperCase is not a function''))"

definition getSubmissions_params ::
  "platform \<Rightarrow> args \<Rightarrow> js_error + (string \<times> jsval) list" where
  "getSubmissions_params pf args0 =
     (case getSubmissions_base pf args0 of
        Inl e \<Rightarrow> Inl e
      | Inr params \<Rightarrow>
          let args = args_or_empty args0;
              searchFieldIds = js_or (lookup args ''searchFieldIds'') (Arr []);
              searchFieldValues = js_or (lookup args ''searchFieldValues'') (Arr [])
          in (case searchFieldIds of
                Arr ids \<Rightarrow> search_fields ids 0 searchFieldValues params
              | _ \<Rightarrow> Inl (JsTypeError ''args.searchFieldIds.every is not a function'')))"

definition getSubmissions ::
  "platform \<Rightarrow> FsAPI \<Rightarrow> jsval \<Rightarrow> args \<Rightarrow> callback \<Rightarrow> reply \<Rightarrow> outcome" where
  "getSubmissions pf this formId args0 callback reply =
     (if isNaN formId then Threw (JsError ''Form ID is required and must be numeric'')
      else case getSubmissions_params pf args0 of
             Inl e \<Rightarrow> Threw e
           | Inr params \<Rightarrow>
               request pf this (js_plus (js_plus (Str ''form/'') formId) (Str ''/submission.json''))
                 (Str ''GET'') (Obj params) (Fn (relay callback)) reply)"

subsection \<open>\<open>submitForm\<close> and \<open>editSubmissionData\<close>\<close>

text \<open>
  \<^verbatim>\<open>
  args.fieldIds.every(function(fId, index){
      if ( isNaN(fId) ) {
          throw new Error('Field IDs must be numeric! ' + fId + ' given');
          return false;
      }
      else {
          params['field_'+fId] = args.fieldValues[index];
          return true;
      }
  });
  \<close>
\<close>

fun fields ::
  "jsval list \<Rightarrow> nat \<Rightarrow> jsval \<Rightarrow> (string \<times> jsval) list \<Rightarrow> js_error + (string \<times> jsval) list" where
  "fields [] index fieldValues params = Inr params"
| "fields (fId # rest) index fieldValues params =
     (if isNaN fId
      then Inl (JsError (''Field IDs must be numeric! '' @ toString fId @ '' given''))
      else fields rest (Suc index) fieldValues
             (obj_set params (''field_'' @ toString fId) (element fieldValues index)))"

text \<open>
  The two methods share their body after the check of the id, word for word:
  \<^verbatim>\<open>
      args = args || {};
      args.fieldIds = args.fieldIds || [];
      args.fieldValues = args.fieldValues || [];
      args.timestamp = args.timestamp || null;
      args.userAgent = args.userAgent || null;
      args.ipAddress = args.ipAddress || null;
      args.paymentStatus = args.paymentStatus || null;
      args.read = args.read || false;
      if ( args.fieldIds.length !== args.fieldValues.length ) {
          throw new Error('You must have a one to one relationship between Field ids and Field values');
      }
      if ( args.timestamp != null && ( strtotime(args.timestamp) == null
                                       || testDateFormat(args.timestamp) == null ) ){
          throw new Error('Invalid value for timestamp. You must use a valid Date/Time string formatted in YYYY-MM-DD HH:MM:SS');
      }
      var params = {};
      if (args.timestamp) params.timestamp = args.timestamp;
      if (args.userAgent) params.user_agent = args.userAgent;
      if (args.ipAddress) params.remote_addr = args.ipAddress;
      if (args.paymentStatus) params.payment_status = args.paymentStatus;
      if (args.read) params.read = args.read ? 1 : 0
      args.fieldIds.every(...);
  \<close>
  \<open>submission_params\<close> is this body: the error it throws, or the \<open>params\<close> it builds.
  \<open>timestamp_check\<close> is its second condition: \<open>Inr True\<close> when the error is to be
  thrown, \<open>Inl\<close> the TypeError of \<open>match\<close> on a timestamp that is not a string.
\<close>

definition timestamp_check :: "platform \<Rightarrow> jsval \<Rightarrow> js_error + bool" where
  "timestamp_check pf timestamp =
     (if js_loose_eq timestamp Null then Inr False
      else if strtotime pf timestamp = None then Inr True
      else case testDateFormat timestamp None of
             Inl e \<Rightarrow> Inl e
           | Inr m \<Rightarrow> Inr (m = None))"

definition submission_params ::
  "platform \<Rightarrow> args \<Rightarrow> js_error + (string \<times> jsval) list" where
  "submission_params pf args0 =
     (let args = args_or_empty args0;
          fieldIds = js_or (lookup args ''fieldIds'') (Arr []);
          fieldValues = js_or (lookup args ''fieldValues'') (Arr []);
          timestamp = js_or (lookup args ''timestamp'') Null;
          userAgent = js_or (lookup args ''userAgent'') Null;
          ipAddress = js_or (lookup args ''ipAddress'') Null;
          paymentStatus = js_or (lookup args ''paymentStatus'') Null;
          read = js_or (lookup args ''read'') (Bool False)
      in
      if \<not> js_strict_eq (read_prop fieldIds ''length'') (read_prop fieldValues ''length'')
      then Inl (JsError
        ''You must have a one to one relationship between Field ids and Field values'')
      else case timestamp_check pf timestamp of
             Inl e \<Rightarrow> Inl e
           | Inr True \<Rightarrow> Inl (JsError
               ''Invalid value for timestamp. You must use a valid Date/Time string formatted in YYYY-MM-DD HH:MM:SS'')
           | Inr False \<Rightarrow>
               (let params = [];
                    params = set_if timestamp ''timestamp'' timestamp params;
                    params = set_if userAgent ''user_agent'' userAgent params;
                    params = set_if ipAddress ''remote_addr'' ipAddress params;
                    params = set_if paymentStatus ''payment_status'' paymentStatus params;
                    params = set_if read ''read'' (Num (if truthy read then 1 else 0)) params
                in case fieldIds of
                     Arr ids \<Rightarrow> fields ids 0 fieldValues params
                   | _ \<Rightarrow> Inl (JsTypeError ''args.fieldIds.every is not a function'')))"

text \<open>
  \<^verbatim>\<open>
  FsAPI.prototype.submitForm = function(formId, args, callback) {
      if ( isNaN(formId) ) {
          throw new Error('Form ID is required and must be numeric');
      }
      ...
      this.request('form/' + formId + '/submission.json', 'POST', params, function(data, err){ ... });
  };
  FsAPI.prototype.editSubmissionData = function(submissionId, args, callback) {
      if ( isNaN(submissionId) ) {
          throw new Error('Submission ID is required and must be numeric');
      }
      ...
      this.request('submission/' + submissionId + '.json', 'PUT', params, function(data, err) { ... });
  };
  \<close>
\<close>

definition submitForm ::
  "platform \<Rightarrow> FsAPI \<Rightarrow> jsval \<Rightarrow> args \<Rightarrow> callback \<Rightarrow> reply \<Rightarrow> outcome" where
  "submitForm pf this formId args0 callback reply =
     (if isNaN formId then Threw (JsError ''Form ID is required and must be numeric'')
      else case submission_params pf args0 of
             Inl e \<Rightarrow> Threw e
           | Inr params \<Rightarrow>
               request pf this (js_plus (js_plus (Str ''form/'') formId) (Str ''/submission.json''))
                 (Str ''POST'') (Obj params) (Fn (relay callback)) reply)"

definition editSubmissionData ::
  "platform \<Rightarrow> FsAPI \<Rightarrow> jsval \<Rightarrow> args \<Rightarrow> callback \<Rightarrow> reply \<Rightarrow> outcome" where
  "editSubmissionData pf this submissionId args0 callback reply =
     (if isNaN submissionId
      then Threw (JsError ''Submission ID is required and must be numeric'')
      else case submission_params pf args0 of
             Inl e \<Rightarrow> Threw e
           | Inr params \<Rightarrow>
               request pf this (js_plus (js_plus (Str ''submission/'') submissionId) (Str ''.json''))
                 (Str ''PUT'') (Obj params) (Fn (relay callback)) reply)"


subsection \<open>\<open>createField\<close>\<close>

text \<open>
  \<^verbatim>\<open>
  FsAPI.prototype.createField = function(formId, args, callback) {
      if ( isNaN(formId) ) {
          throw new Error('Form ID is required and must be numeric');
      }
      args = args || {};
      args.fieldType = args.fieldType || null;
      args.label = args.label || null;
      args.hideLabel = args.hideLabel || false;
      args.description = args.description || null;
      args.useCallout = args.useCallout || false;
      args.fieldSpecificAttributes = args.fieldSpecificAttributes || null;
      args.defaultValue = args.defaultValue || null;
      args.options = args.options || null;
      args.optionsValues = args.optionsValues || null;
      args.required = args.required || false;
      args.readOnly = args.readOnly || false;
      args.hidden = args.hidden || false;
      args.unique = args.unique || false;
      args.columnSpan = args.columnSpan || null;
      args.sort = args.sort || null;
      if (validFieldTypes.indexOf(args.fieldType) == -1) {
          throw new Error('Provided Field Type is not in the list of known Field types');
      }
      var params = {};
      params.field_type = args.fieldType;
      if (args.label) params.label = args.label;
      if (args.hideLabel) params.hide_label = args.hideLabel;
      if (args.description) params.description = args.description;
      if (args.useCallout) params.description_callout = 1;
      if (args.fieldSpecificAttributes) params.attributes = args.fieldSpecificAttributes;
      if (args.defaultValue) params.default_value = args.defaultValue;
      if (args.options) params.options = args.options;
      if (args.optionsValues) params.options_values = args.optionsValues;
      if (args.required) params.required = 1;
      if (args.readOnly) params.readonly = 1;
      if (args.hidden) params.hidden = 1;
      if (args.unique) params.unique = 1;
      if (args.columnSpan) params.colspan = args.columnSpan;
      if (args.sort) params.sort = args.sort;
      this.request('form/' + formId + '/field', 'POST', params, function(data, err) { ... });
  };
  \<close>
  \<open>indexOf\<close> compares with \<open>===\<close>: only a string is found in \<open>validFieldTypes\<close>.
\<close>

definition createField_params :: "args \<Rightarrow> js_error + (string \<times> jsval) list" where
  "createField_params args0 =
     (let args = args_or_empty args0;
          fieldType = js_or (lookup args ''fieldType'') Null;
          label = js_or (lookup args ''label'') Null;
          hideLabel = js_or (lookup args ''hideLabel'') (Bool False);
          description = js_or (lookup args ''description'') Null;
          useCallout = js_or (lookup args ''useCallout'') (Bool False);
          fieldSpecificAttributes = js_or (lookup args ''fieldSpecificAttributes'') Null;
          defaultValue = js_or (lookup args ''defaultValue'') Null;
          options = js_or (lookup args ''options'') Null;
          optionsValues = js_or (lookup args ''optionsValues'') Null;
          required = js_or (lookup args ''required'') (Bool False);
          readOnly = js_or (lookup args ''readOnly'') (Bool False);
          hidden = js_or (lookup args ''hidden'') (Bool False);
          unique = js_or (lookup args ''unique'') (Bool False);
          columnSpan = js_or (lookup args ''columnSpan'') Null;
          sort = js_or (lookup args ''sort'') Null
      in
      if \<not> (case fieldType of Str t \<Rightarrow> t \<in> set validFieldTypes | _ \<Rightarrow> False)
      then Inl (JsError ''Provided Field Type is not in the list of known Field types'')
      else
        let params = [];
            params = obj_set params ''field_type'' fieldType;
            params = set_if label ''label'' label params;
            params = set_if hideLabel ''hide_label'' hideLabel params;
            params = set_if description ''description'' description params;
            params = set_if useCallout ''description_callout'' (Num 1) params;
            params = set_if fieldSpecificAttributes ''attributes'' fieldSpecificAttributes params;
            params = set_if defaultValue ''default_value'' defaultValue params;
            params = set_if options ''options'' options params;
            params = set_if optionsValues ''options_values'' optionsValues params;
            params = set_if required ''required'' (Num 1) params;
            params = set_if readOnly ''readonly'' (Num 1) params;
            params = set_if hidden ''hidden'' (Num 1) params;
            params = set_if unique ''unique'' (Num 1) params;
            params = set_if columnSpan ''colspan'' columnSpan params;
            params = set_if sort ''sort'' sort params
        in Inr params)"

definition createField ::
  "platform \<Rightarrow> FsAPI \<Rightarrow> jsval \<Rightarrow> args \<Rightarrow> callback \<Rightarrow> reply \<Rightarrow> outcome" where
  "createField pf this formId args0 callback reply =
     (if isNaN formId then Threw (JsError ''Form ID is required and must be numeric'')
      else case createField_params args0 of
             Inl e \<Rightarrow> Threw e
           | Inr params \<Rightarrow>
               request pf this (js_plus (js_plus (Str ''form/'') formId) (Str ''/field''))
                 (Str ''POST'') (Obj params) (Fn (relay callback)) reply)"

subsection \<open>The calls of the interface\<close>

text \<open>
  A call of a resource method with its arguments; \<open>perform\<close> runs it. \<open>completed\<close> is
  what the handlers of the request did, \<open>None\<close> for a call that threw before any request.
  A component of the pair \<open>(data, err)\<close> is \<open>populated\<close> when it is neither \<open>null\<close>
  nor \<open>undefined\<close>.
\<close>

datatype resource_call =
    GetForms args
  | GetFormDetails jsval
  | CopyForm jsval
  | GetSubmissions jsval args
  | SubmitForm jsval args
  | GetSubmissionDetails jsval args
  | EditSubmissionData jsval args
  | DeleteSubmission jsval
  | CreateField jsval args
  | GetFields jsval

fun perform :: "platform \<Rightarrow> FsAPI \<Rightarrow> resource_call \<Rightarrow> callback \<Rightarrow> reply \<Rightarrow> outcome" where
  "perform pf this (GetForms args) cb r = getForms pf this args cb r"
| "perform pf this (GetFormDetails formId) cb r = getFormDetails pf this formId cb r"
| "perform pf this (CopyForm formId) cb r = copyForm pf this formId cb r"
| "perform pf this (GetSubmissions formId args) cb r = getSubmissions pf this formId args cb r"
| "perform pf this (SubmitForm formId args) cb r = submitForm pf this formId args cb r"
| "perform pf this (GetSubmissionDetails submissionId args) cb r =
     getSubmissionDetails pf this submissionId args cb r"
| "perform pf this (EditSubmissionData submissionId args) cb r =
     editSubmissionData pf this submissionId args cb r"
| "perform pf this (DeleteSubmission submissionId) cb r = deleteSubmission pf this submissionId cb r"
| "perform pf this (CreateField formId args) cb r = createField pf this formId args cb r"
| "perform pf this (GetFields formId) cb r = getFields pf this formId cb r"

fun completed :: "outcome \<Rightarrow> completion option" where
  "completed (Threw e) = None"
| "completed (Requested req c) = Some c"

fun is_GetForms :: "resource_call \<Rightarrow> bool" where
  "is_GetForms (GetForms args) = True"
| "is_GetForms c = False"

definition populated :: "jsval \<Rightarrow> bool" where
  "populated v = (v \<noteq> Null \<and> v \<noteq> Undefined)"

section \<open>A host for concrete runs\<close>

text \<open>
  The theorems below hold for every platform. Concrete runs need one: \<open>utc_host\<close>
  behaves as Node.js does with the process time zone set to UTC, on the texts it covers.
  Its \<open>JSON.parse\<close> reads JSON texts whose numbers are integers and whose strings use
  the one-letter escapes only (other numbers and \<open>\u\<close> escapes denote values outside
  \<open>jsval\<close>, and the runs below do not use them). Its \<open>Date.parse\<close> reads the shape
  \<open>Y-M-D h:m:s\<close> of a calendar date as a UTC time.
\<close>

definition json_ws :: "char \<Rightarrow> bool" where
  "json_ws c = ((of_char c :: nat) \<in> {32, 9, 10, 13})"

fun json_string :: "string \<Rightarrow> (string \<times> string) option" where
  "json_string [] = None"
| "json_string (c # cs) =
     (if c = CHR 0x22 then Some ([], cs)
      else if c = CHR 0x5C then
        (case cs of
           [] \<Rightarrow> None
         | e # r \<Rightarrow>
             (case map_of
                     [(CHR 0x22, CHR 0x22), (CHR 0x5C, CHR 0x5C), (CHR ''/'', CHR ''/''),
                      (CHR ''b'', CHR 0x08), (CHR ''f'', CHR 0x0C), (CHR ''n'', CHR 0x0A),
                      (CHR ''r'', CHR 0x0D), (CHR ''t'', CHR 0x09)] e of
                None \<Rightarrow> None
              | Some u \<Rightarrow> map_option (\<lambda>(t, rest). (u # t, rest)) (json_string r)))
      else if (of_char c :: nat) < 32 then None
      else map_option (\<lambda>(t, rest). (c # t, rest)) (json_string cs))"

definition json_integer :: "string \<Rightarrow> (jsval \<times> string) option" where
  "json_integer s =
     (let neg = (take 1 s = ''-'');
          u = (if neg then drop 1 s else s);
          ds = takeWhile is_digit u;
          rest = dropWhile is_digit u
      in if ds = [] \<or> (length ds > 1 \<and> take 1 ds = ''0'') \<or>
            take 1 rest \<in> {''.'', ''e'', ''E''}
         then None
         else Some (Num ((if neg then - 1 else 1) * int (nat_of_digits 10 ds)), rest))"

fun json_value :: "nat \<Rightarrow> string \<Rightarrow> (jsval \<times> string) option"
  and json_elements :: "nat \<Rightarrow> string \<Rightarrow> jsval list \<Rightarrow> (jsval \<times> string) option"
  and json_members ::
    "nat \<Rightarrow> string \<Rightarrow> (string \<times> jsval) list \<Rightarrow> (jsval \<times> string) option" where
  "json_value 0 s = None"
| "json_value (Suc n) s =
     (let t = dropWhile json_ws s in
      case t of
        [] \<Rightarrow> None
      | c # r \<Rightarrow>
          if c = CHR ''['' then
            (if take 1 (dropWhile json_ws r) = '']''
             then Some (Arr [], drop 1 (dropWhile json_ws r))
             else json_elements n r [])
          else if c = CHR ''{'' then
            (if take 1 (dropWhile json_ws r) = ''}''
             then Some (Obj [], drop 1 (dropWhile json_ws r))
             else json_members n r [])
          else if c = CHR 0x22 then map_option (\<lambda>(x, rest). (Str x, rest)) (json_string r)
          else if take 4 t = ''null'' then Some (Null, drop 4 t)
          else if take 4 t = ''true'' then Some (Bool True, drop 4 t)
          else if take 5 t = ''false'' then Some (Bool False, drop 5 t)
          else json_integer t)"
| "json_elements 0 s acc = None"
| "json_elements (Suc n) s acc =
     (case json_value n s of
        None \<Rightarrow> None
      | Some (v, r) \<Rightarrow>
          (case dropWhile json_ws r of
             [] \<Rightarrow> None
           | c # r' \<Rightarrow>
               if c = CHR '','' then json_elements n r' (acc @ [v])
               else if c = CHR '']'' then Some (Arr (acc @ [v]), r')
               else None))"
| "json_members 0 s acc = None"
| "json_members (Suc n) s acc =
     (case dropWhile json_ws s of
        [] \<Rightarrow> None
      | q # r \<Rightarrow>
          if q \<noteq> CHR 0x22 then None
          else
            (case json_string r of
               None \<Rightarrow> None
             | Some (key, r1) \<Rightarrow>
                 (case dropWhile json_ws r1 of
                    [] \<Rightarrow> None
                  | colon # r2 \<Rightarrow>
                      if colon \<noteq> CHR '':'' then None
                      else
                        (case json_value n r2 of
                           None \<Rightarrow> None
                         | Some (v, r3) \<Rightarrow>
                             (case dropWhile json_ws r3 of
                                [] \<Rightarrow> None
                              | c # r4 \<Rightarrow>
                                  if c = CHR '','' then json_members n r4 (obj_set acc key v)
                                  else if c = CHR ''}'' then Some (Obj (obj_set acc key v), r4)
                                  else None)))))"

text \<open>Every call of the three functions consumes a character: the length bounds the fuel.\<close>

definition json_parse :: "string \<Rightarrow> jsval option" where
  "json_parse s =
     (case json_value (Suc (length s)) s of
        None \<Rightarrow> None
      | Some (v, rest) \<Rightarrow> if dropWhile json_ws rest = [] then Some v else None)"

text \<open>The days from 1970-01-01 to a date of the proleptic Gregorian calendar.\<close>

definition days_from_civil :: "int \<Rightarrow> int \<Rightarrow> int \<Rightarrow> int" where
  "days_from_civil y m d =
     (let y1 = (if m \<le> 2 then y - 1 else y);
          era = y1 div 400;
          yoe = y1 - era * 400;
          doy = (153 * (if m > 2 then m - 3 else m + 9) + 2) div 5 + d - 1;
          doe = yoe * 365 + yoe div 4 - yoe div 100 + doy
      in era * 146097 + doe - 719468)"

definition days_in_month :: "int \<Rightarrow> int \<Rightarrow> int" where
  "days_in_month y m =
     (if m = 2 then (if y mod 4 = 0 \<and> (y mod 100 \<noteq> 0 \<or> y mod 400 = 0) then 29 else 28)
      else if m \<in> {4, 6, 9, 11} then 30 else 31)"

definition split_at :: "char \<Rightarrow> string \<Rightarrow> string \<times> string" where
  "split_at c s = (takeWhile (\<lambda>x. x \<noteq> c) s, drop 1 (dropWhile (\<lambda>x. x \<noteq> c) s))"

definition date_parse_utc :: "string \<Rightarrow> int option" where
  "date_parse_utc s =
     (if \<not> match_here default_formatExp (units s) then None
      else
        let (ys, s1) = split_at (CHR ''-'') s;
            (ms, s2) = split_at (CHR ''-'') s1;
            ds = takeWhile is_digit s2;
            s3 = drop 1 (dropWhile is_digit s2);
            (hs, s4) = split_at (CHR '':'') s3;
            (mins, secs) = split_at (CHR '':'') s4;
            y = int (nat_of_digits 10 ys); m = int (nat_of_digits 10 ms);
            d = int (nat_of_digits 10 ds); h = int (nat_of_digits 10 hs);
            mi = int (nat_of_digits 10 mins); sec = int (nat_of_digits 10 secs)
        in if 1 \<le> m \<and> m \<le> 12 \<and> 1 \<le> d \<and> d \<le> days_in_month y m \<and>
              h < 24 \<and> mi < 60 \<and> sec < 60
           then Some (((days_from_civil y m d * 24 + h) * 60 + mi) * 60000 + sec * 1000)
           else None)"

definition utc_host :: platform where
  "utc_host = \<lparr> JSON_parse = json_parse, Date_parse = date_parse_utc \<rparr>"

definition api :: FsAPI where
  "api = new_FsAPI (Str ''token'') Undefined Undefined Undefined"


text \<open>
  The search entries of \<open>getSubmissions\<close> as they are claimed: for each index below
  \<open>n\<close>, in order, the key \<open>search_field_<index>\<close> bound to the value at that index.
\<close>

definition search_entries :: "jsval list \<Rightarrow> nat \<Rightarrow> (string \<times> jsval) list" where
  "search_entries vals n = map (\<lambda>i. (''search_field_'' @ string_of_nat i, vals ! i)) [0..<n]"

section \<open>Verification of the Query Encoder\<close>

lemma fold_push_subItems:
  "fold (\<lambda>(subItem, w) qp. qp @ [f subItem w]) kvs acc = acc @ map (\<lambda>(k, w). f k w) kvs"
  by (induction kvs arbitrary: acc) auto

lemma push_item_segments:
  "is_scalar v \<or> is_flat_mapping v \<Longrightarrow> push_item (k, v) acc = acc @ encode_segments (k, v)"
  by (cases v)
    (auto simp: push_item_def push_subItems_def encode_segments_def is_scalar_def
      is_flat_mapping_def fold_push_subItems)

lemma fold_push_item:
  "list_all (\<lambda>(k, v). is_scalar v \<or> is_flat_mapping v) m \<Longrightarrow>
   fold push_item m acc = acc @ concat (map encode_segments m)"
  by (induction m arbitrary: acc) (auto simp: push_item_segments)

text \<open>
  Claim C4. For every parameter mapping whose values are scalars or flat mappings of
  scalars, \<open>dataToQueryString\<close> computes the reference encoder of the specification: one
  \<open>key=value\<close> segment per scalar entry, one \<open>key[subkey]=value\<close> segment per inner
  entry of a flat mapping, in iteration order, joined with \<open>&\<close>, and the joined string
  URI-encoded once.
\<close>

theorem dataToQueryString_is_encode_reference:
  "list_all (\<lambda>(k, v). is_scalar v \<or> is_flat_mapping v) m \<Longrightarrow>
   dataToQueryString (Obj m) = encode_reference m"
  by (simp add: dataToQueryString_def queryParts_of_def encode_reference_def fold_push_item)

lemmas encoder_defs =
  dataToQueryString_def queryParts_of_def push_item_def push_subItems_def encode_reference_def
  encode_segments_def encodeURI_def encodeURI_unit_def uri_unescaped_def is_alpha_def
  is_digit_def percent_def digit_char_def string_of_int_def string_of_nat.simps
  is_scalar_def is_flat_mapping_def

theorem dataToQueryString_is_encode_reference_witness:
  "list_all (\<lambda>(k, v). is_scalar v \<or> is_flat_mapping v)
     [(''page'', Num 2), (''sort'', Str ''ASC''),
      (''field'', Obj [(''first'', Str ''a b''), (''last'', Bool True)])] \<and>
   dataToQueryString
     (Obj [(''page'', Num 2), (''sort'', Str ''ASC''),
           (''field'', Obj [(''first'', Str ''a b''), (''last'', Bool True)])]) =
   encode_reference
     [(''page'', Num 2), (''sort'', Str ''ASC''),
      (''field'', Obj [(''first'', Str ''a b''), (''last'', Bool True)])] \<and>
   encode_reference
     [(''page'', Num 2), (''sort'', Str ''ASC''),
      (''field'', Obj [(''first'', Str ''a b''), (''last'', Bool True)])] =
   ''page=2&sort=ASC&field%5Bfirst%5D=a%20b&field%5Blast%5D=true''"
  using dataToQueryString_is_encode_reference
    [of "[(''page'', Num 2), (''sort'', Str ''ASC''),
          (''field'', Obj [(''first'', Str ''a b''), (''last'', Bool True)])]"]
  by (simp add: encoder_defs)

lemma digit_char_mem: "d < 16 \<Longrightarrow> digit_char d \<in> set ''0123456789ABCDEF''"
  unfolding digit_char_def by (rule nth_mem) simp

lemma digit_char_not_sep: "d < 16 \<Longrightarrow> \<not> is_eq_or_amp (digit_char d)"
  using digit_char_mem [of d] by (auto simp: is_eq_or_amp_def)

lemma percent_filter: "b < 256 \<Longrightarrow> filter is_eq_or_amp (percent b) = []"
proof -
  assume "b < 256"
  then have "b div 16 < 16" "b mod 16 < 16" by auto
  then show ?thesis
    by (simp add: percent_def digit_char_not_sep) (simp add: is_eq_or_amp_def)
qed

lemma of_char_less_256: "(of_char c :: nat) < 256"
  by (cases c) (simp add: of_char_def)

lemma seps_unescaped: "is_eq_or_amp c \<Longrightarrow> uri_unescaped c"
  by (auto simp: is_eq_or_amp_def uri_unescaped_def)

lemma encodeURI_unit_filter:
  "filter is_eq_or_amp (encodeURI_unit c) = filter is_eq_or_amp [c]"
proof (cases "uri_unescaped c")
  case True
  then show ?thesis by (simp add: encodeURI_unit_def)
next
  case False
  then have ns: "\<not> is_eq_or_amp c" using seps_unescaped by blast
  have a: "(of_char c :: nat) < 256" by (rule of_char_less_256)
  then have "(of_char c :: nat) div 64 < 4" by (simp add: less_mult_imp_div_less)
  then have b: "192 + (of_char c :: nat) div 64 < 256" "128 + (of_char c :: nat) mod 64 < 256"
    by simp_all
  show ?thesis using False ns a b
    by (simp add: encodeURI_unit_def Let_def percent_filter)
qed

lemma encodeURI_filter: "filter is_eq_or_amp (encodeURI s) = filter is_eq_or_amp s"
  by (induction s) (simp_all add: encodeURI_def encodeURI_unit_filter)

lemma encodeURI_append: "encodeURI (a @ b) = encodeURI a @ encodeURI b"
  by (simp add: encodeURI_def)

lemma encodeURI_eq: "encodeURI ''='' = ''=''"
  by (simp add: encodeURI_def encodeURI_unit_def uri_unescaped_def)

lemma encodeURI_amp: "encodeURI ''&'' = ''&''"
  by (simp add: encodeURI_def encodeURI_unit_def uri_unescaped_def)

lemma dataToQueryString_single:
  "dataToQueryString (Obj [(k, Str v)]) = encodeURI k @ ''='' @ encodeURI v"
  using encodeURI_append [of k "''='' @ v"] encodeURI_append [of "''=''" v] encodeURI_eq
  by (simp add: dataToQueryString_def queryParts_of_def push_item_def)

text \<open>
  Claim C5, as the code has it. \<open>encodeURI\<close> does not escape \<open>=\<close> and \<open>&\<close>: both are
  reserved characters, which it leaves alone. The claim fails at the value \<open>a=b&c\<close>,
  which reaches the query string unchanged.
\<close>

theorem dataToQueryString_escapes_separators_counterexample:
  "dataToQueryString (Obj [(''q'', Str ''a=b&c'')]) = ''q=a=b&c''"
  by (simp add: encoder_defs)

text \<open>
  Claim C5, amended. For every parameter mapping, the URI encoding of the joined string
  neither escapes nor adds an \<open>=\<close> or an \<open>&\<close>: these characters of the query string
  are those of the joined segments, in the same order; and an \<open>=\<close> or \<open>&\<close> inside a
  string value stands unescaped in the query string.
\<close>

theorem dataToQueryString_keeps_separators:
  "filter is_eq_or_amp (dataToQueryString d) =
     filter is_eq_or_amp (join ''&'' (queryParts_of d)) \<and>
   dataToQueryString (Obj [(k, Str (a @ ''='' @ b))]) =
     encodeURI k @ ''='' @ encodeURI a @ ''='' @ encodeURI b \<and>
   dataToQueryString (Obj [(k, Str (a @ ''&'' @ b))]) =
     encodeURI k @ ''='' @ encodeURI a @ ''&'' @ encodeURI b"
proof (intro conjI)
  show "filter is_eq_or_amp (dataToQueryString d) =
     filter is_eq_or_amp (join ''&'' (queryParts_of d))"
    by (simp add: dataToQueryString_def encodeURI_filter)
  show "dataToQueryString (Obj [(k, Str (a @ ''='' @ b))]) =
     encodeURI k @ ''='' @ encodeURI a @ ''='' @ encodeURI b"
    unfolding dataToQueryString_single
    using encodeURI_append [of a "''='' @ b"] encodeURI_append [of "''=''" b] encodeURI_eq
    by simp
  show "dataToQueryString (Obj [(k, Str (a @ ''&'' @ b))]) =
     encodeURI k @ ''='' @ encodeURI a @ ''&'' @ encodeURI b"
    unfolding dataToQueryString_single
    using encodeURI_append [of a "''&'' @ b"] encodeURI_append [of "''&''" b] encodeURI_amp
    by simp
qed

section \<open>Verification of the Date Validator\<close>

lemma match_here_Cons:
  "match_here ((a, lo, hi) # ps) s =
     (\<exists>p r. s = p @ r \<and> lo \<le> length p \<and> length p \<le> hi \<and>
            list_all (atom_matches a) p \<and> match_here ps r)"
proof
  assume "match_here ((a, lo, hi) # ps) s"
  then obtain k where k: "lo \<le> k" "k \<le> hi" "k \<le> length s"
      "list_all (atom_matches a) (take k s)" "match_here ps (drop k s)"
    by (auto simp: list_ex_iff)
  have "s = take k s @ drop k s" by simp
  moreover have "length (take k s) = k" using k(3) by simp
  ultimately show "\<exists>p r. s = p @ r \<and> lo \<le> length p \<and> length p \<le> hi \<and>
            list_all (atom_matches a) p \<and> match_here ps r"
    using k by metis
next
  assume "\<exists>p r. s = p @ r \<and> lo \<le> length p \<and> length p \<le> hi \<and>
            list_all (atom_matches a) p \<and> match_here ps r"
  then obtain p r where pr: "s = p @ r" "lo \<le> length p" "length p \<le> hi"
      "list_all (atom_matches a) p" "match_here ps r" by auto
  have "length p \<in> set (rev [lo..<Suc hi])" using pr(2,3) by auto
  moreover have "length p \<le> length s \<and> list_all (atom_matches a) (take (length p) s) \<and>
      match_here ps (drop (length p) s)"
    using pr by simp
  ultimately show "match_here ((a, lo, hi) # ps) s"
    unfolding match_here.simps list_ex_iff by blast
qed

lemma match_digits_step:
  assumes "k < length pat" "pat ! k = (Digit, lo, hi)" "k' = Suc k"
  shows "match_here (drop k pat) s =
           (\<exists>p r. s = p @ r \<and> digits lo hi p \<and> match_here (drop k' pat) r)"
proof -
  have "drop k pat = (Digit, lo, hi) # drop k' pat"
    using assms by (metis Cons_nth_drop_Suc)
  moreover have "atom_matches Digit = decimal_digit" by (rule ext) simp
  ultimately show ?thesis by (simp only: match_here_Cons digits_def conj_assoc)
qed

lemma match_one_step:
  assumes "k < length pat" "pat ! k = (a, 1, 1)" "k' = Suc k"
  shows "match_here (drop k pat) s =
           (\<exists>w r. s = w # r \<and> atom_matches a w \<and> match_here (drop k' pat) r)"
proof -
  have d: "drop k pat = (a, 1, 1) # drop k' pat"
    using assms by (metis Cons_nth_drop_Suc)
  show ?thesis
  proof
    assume "match_here (drop k pat) s"
    then obtain p r where pr: "s = p @ r" "1 \<le> length p" "length p \<le> 1"
        "list_all (atom_matches a) p" "match_here (drop k' pat) r"
      unfolding d match_here_Cons by blast
    then obtain w where "p = [w]" by (cases p) auto
    then show "\<exists>w r. s = w # r \<and> atom_matches a w \<and> match_here (drop k' pat) r"
      using pr by auto
  next
    assume "\<exists>w r. s = w # r \<and> atom_matches a w \<and> match_here (drop k' pat) r"
    then obtain w r where wr: "s = w # r" "atom_matches a w" "match_here (drop k' pat) r"
      by blast
    then have "s = [w] @ r \<and> 1 \<le> length [w] \<and> length [w] \<le> 1 \<and>
            list_all (atom_matches a) [w] \<and> match_here (drop k' pat) r" by simp
    then show "match_here (drop k pat) s"
      unfolding d match_here_Cons by blast
  qed
qed

lemma default_nth:
  "length default_formatExp = 11"
  "default_formatExp ! 0 = (Digit, 4, 4)"
  "default_formatExp ! 1 = (Chr (CHR ''-''), 1, 1)"
  "default_formatExp ! 2 = (Digit, 1, 2)"
  "default_formatExp ! 3 = (Chr (CHR ''-''), 1, 1)"
  "default_formatExp ! 4 = (Digit, 1, 2)"
  "default_formatExp ! 5 = (Space, 1, 1)"
  "default_formatExp ! 6 = (Digit, 1, 2)"
  "default_formatExp ! 7 = (Chr (CHR '':''), 1, 1)"
  "default_formatExp ! 8 = (Digit, 1, 2)"
  "default_formatExp ! 9 = (Chr (CHR '':''), 1, 1)"
  "default_formatExp ! 10 = (Digit, 1, 2)"
  by (simp_all add: default_formatExp_def)

lemma default_shape:
  "match_here default_formatExp s =
     (\<exists>Y M D w h m sec.
        s = Y @ units ''-'' @ M @ units ''-'' @ D @ [w] @ h @ units '':'' @ m @ units '':'' @ sec \<and>
        digits 4 4 Y \<and> digits 1 2 M \<and> digits 1 2 D \<and> white_space w \<and>
        digits 1 2 h \<and> digits 1 2 m \<and> digits 1 2 sec)"
proof -
  let ?pat = default_formatExp
  have u: "units ''-'' = [45]" "units '':'' = [58]" by (simp_all add: units_def)
  have s0: "match_here ?pat s = (\<exists>Y r. s = Y @ r \<and> digits 4 4 Y \<and> match_here (drop 1 ?pat) r)"
    using match_digits_step [OF _ default_nth(2), of 1 s] by (simp add: default_nth(1))
  have s1: "\<And>t. match_here (drop 1 ?pat) t = (\<exists>r. t = 45 # r \<and> match_here (drop 2 ?pat) r)"
    using match_one_step [OF _ default_nth(3), of 2] by (simp add: default_nth(1))
  have s2: "\<And>t. match_here (drop 2 ?pat) t = (\<exists>M r. t = M @ r \<and> digits 1 2 M \<and> match_here (drop 3 ?pat) r)"
    using match_digits_step [OF _ default_nth(4), of 3] by (simp add: default_nth(1))
  have s3: "\<And>t. match_here (drop 3 ?pat) t = (\<exists>r. t = 45 # r \<and> match_here (drop 4 ?pat) r)"
    using match_one_step [OF _ default_nth(5), of 4] by (simp add: default_nth(1))
  have s4: "\<And>t. match_here (drop 4 ?pat) t = (\<exists>D r. t = D @ r \<and> digits 1 2 D \<and> match_here (drop 5 ?pat) r)"
    using match_digits_step [OF _ default_nth(6), of 5] by (simp add: default_nth(1))
  have s5: "\<And>t. match_here (drop 5 ?pat) t = (\<exists>w r. t = w # r \<and> white_space w \<and> match_here (drop 6 ?pat) r)"
    using match_one_step [OF _ default_nth(7), of 6] by (simp add: default_nth(1))
  have s6: "\<And>t. match_here (drop 6 ?pat) t = (\<exists>h r. t = h @ r \<and> digits 1 2 h \<and> match_here (drop 7 ?pat) r)"
    using match_digits_step [OF _ default_nth(8), of 7] by (simp add: default_nth(1))
  have s7: "\<And>t. match_here (drop 7 ?pat) t = (\<exists>r. t = 58 # r \<and> match_here (drop 8 ?pat) r)"
    using match_one_step [OF _ default_nth(9), of 8] by (simp add: default_nth(1))
  have s8: "\<And>t. match_here (drop 8 ?pat) t = (\<exists>m r. t = m @ r \<and> digits 1 2 m \<and> match_here (drop 9 ?pat) r)"
    using match_digits_step [OF _ default_nth(10), of 9] by (simp add: default_nth(1))
  have s9: "\<And>t. match_here (drop 9 ?pat) t = (\<exists>r. t = 58 # r \<and> match_here (drop 10 ?pat) r)"
    using match_one_step [OF _ default_nth(11), of 10] by (simp add: default_nth(1))
  have s10: "\<And>t. match_here (drop 10 ?pat) t = digits 1 2 t"
  proof -
    fix t
    have e: "drop 11 ?pat = []" by (simp add: default_nth(1))
    have l: "10 < length ?pat" by (simp add: default_nth(1))
    have "match_here (drop 10 ?pat) t =
        (\<exists>p r. t = p @ r \<and> digits 1 2 p \<and> match_here (drop 11 ?pat) r)"
      by (rule match_digits_step [OF l default_nth(12)]) simp
    then have "match_here (drop 10 ?pat) t = (\<exists>p r. t = p @ r \<and> digits 1 2 p \<and> r = [])"
      unfolding e match_here.simps(1) .
    also have "\<dots> = digits 1 2 t"
    proof
      assume "\<exists>p r. t = p @ r \<and> digits 1 2 p \<and> r = []"
      then obtain p where "t = p @ []" "digits 1 2 p" by blast
      then show "digits 1 2 t" by simp
    next
      assume "digits 1 2 t"
      then have "t = t @ [] \<and> digits 1 2 t \<and> [] = ([]::int list)" by simp
      then show "\<exists>p r. t = p @ r \<and> digits 1 2 p \<and> r = []" by blast
    qed
    finally show "match_here (drop 10 ?pat) t = digits 1 2 t" .
  qed
  have c9: "\<And>t. match_here (drop 9 ?pat) t = (\<exists>sec. t = [58] @ sec \<and> digits 1 2 sec)"
    unfolding s9 s10 by simp
  have c8: "\<And>t. match_here (drop 8 ?pat) t =
      (\<exists>m sec. t = m @ [58] @ sec \<and> digits 1 2 m \<and> digits 1 2 sec)"
    unfolding s8 c9 by blast
  have c7: "\<And>t. match_here (drop 7 ?pat) t =
      (\<exists>m sec. t = [58] @ m @ [58] @ sec \<and> digits 1 2 m \<and> digits 1 2 sec)"
    unfolding s7 c8 by (simp; blast)
  have c6: "\<And>t. match_here (drop 6 ?pat) t =
      (\<exists>h m sec. t = h @ [58] @ m @ [58] @ sec \<and> digits 1 2 h \<and> digits 1 2 m \<and> digits 1 2 sec)"
    unfolding s6 c7 by blast
  have c5: "\<And>t. match_here (drop 5 ?pat) t =
      (\<exists>w h m sec. t = [w] @ h @ [58] @ m @ [58] @ sec \<and> white_space w \<and>
         digits 1 2 h \<and> digits 1 2 m \<and> digits 1 2 sec)"
    unfolding s5 c6 by (simp; blast)
  have c4: "\<And>t. match_here (drop 4 ?pat) t =
      (\<exists>D w h m sec. t = D @ [w] @ h @ [58] @ m @ [58] @ sec \<and> digits 1 2 D \<and> white_space w \<and>
         digits 1 2 h \<and> digits 1 2 m \<and> digits 1 2 sec)"
    unfolding s4 c5 by blast
  have c3: "\<And>t. match_here (drop 3 ?pat) t =
      (\<exists>D w h m sec. t = [45] @ D @ [w] @ h @ [58] @ m @ [58] @ sec \<and> digits 1 2 D \<and>
         white_space w \<and> digits 1 2 h \<and> digits 1 2 m \<and> digits 1 2 sec)"
    unfolding s3 c4 by (simp; blast)
  have c2: "\<And>t. match_here (drop 2 ?pat) t =
      (\<exists>M D w h m sec. t = M @ [45] @ D @ [w] @ h @ [58] @ m @ [58] @ sec \<and> digits 1 2 M \<and>
         digits 1 2 D \<and> white_space w \<and> digits 1 2 h \<and> digits 1 2 m \<and> digits 1 2 sec)"
    unfolding s2 c3 by blast
  have c1: "\<And>t. match_here (drop 1 ?pat) t =
      (\<exists>M D w h m sec. t = [45] @ M @ [45] @ D @ [w] @ h @ [58] @ m @ [58] @ sec \<and>
         digits 1 2 M \<and> digits 1 2 D \<and> white_space w \<and> digits 1 2 h \<and> digits 1 2 m \<and>
         digits 1 2 sec)"
    unfolding s1 c2 by (simp; blast)
  show ?thesis
    unfolding u s0 c1 by blast
qed

text \<open>
  Claim C7, as the code has it. The pattern separates the date from the time with
  \<open>\s\<close>, which is any white space character: a tab between the two is accepted, so the
  strings accepted are not only those with a space there.
\<close>

theorem testDateFormat_space_only_counterexample:
  "testDateFormat (Str (''2024-03-05'' @ [CHR 0x09] @ ''09:00:00'')) None =
     Inr (Some [units (''2024-03-05'' @ [CHR 0x09] @ ''09:00:00'')])"
  by code_simp

text \<open>
  Claim C7, amended. With its default pattern \<open>testDateFormat\<close> accepts exactly the
  strings made of a 4-digit year, \<open>-\<close>, a 1-2 digit month, \<open>-\<close>, a 1-2 digit day, one
  white space character, a 1-2 digit hour, \<open>:\<close>, a 1-2 digit minute, \<open>:\<close> and a 1-2
  digit second, where a digit is one of \<open>0\<close> to \<open>9\<close> and a white space character is
  anything \<open>\s\<close> matches: U+0009 to U+000D, U+0020, U+00A0, U+1680, U+2000 to U+200A,
  U+2028, U+2029, U+202F, U+205F, U+3000 or U+FEFF. It returns the match for these and
  \<open>null\<close> for every other string, whatever its code units. It accepts
  \<open>2024-3-5 9:0:0\<close> and rejects \<open>2024/03/05 09:00:00\<close>.
\<close>

theorem testDateFormat_default_shape:
  "testDateFormat_string s None =
     (if \<exists>Y M D w h m sec.
            s = Y @ units ''-'' @ M @ units ''-'' @ D @ [w] @ h @ units '':'' @ m @ units '':'' @ sec \<and>
            digits 4 4 Y \<and> digits 1 2 M \<and> digits 1 2 D \<and> white_space w \<and>
            digits 1 2 h \<and> digits 1 2 m \<and> digits 1 2 sec
      then Some [s] else None) \<and>
   testDateFormat (Str t) None = Inr (testDateFormat_string (units t) None) \<and>
   testDateFormat (Str ''2024-3-5 9:0:0'') None = Inr (Some [units ''2024-3-5 9:0:0'']) \<and>
   testDateFormat (Str ''2024/03/05 09:00:00'') None = Inr None \<and>
   testDateFormat_string (units ''2024-03-05'' @ [12288] @ units ''09:00:00'') None =
     Some [units ''2024-03-05'' @ [12288] @ units ''09:00:00'']"
proof (intro conjI)
  show "testDateFormat_string s None =
     (if \<exists>Y M D w h m sec.
            s = Y @ units ''-'' @ M @ units ''-'' @ D @ [w] @ h @ units '':'' @ m @ units '':'' @ sec \<and>
            digits 4 4 Y \<and> digits 1 2 M \<and> digits 1 2 D \<and> white_space w \<and>
            digits 1 2 h \<and> digits 1 2 m \<and> digits 1 2 sec
      then Some [s] else None)"
    unfolding testDateFormat_string_def match_default_def default_shape by simp
  show "testDateFormat (Str t) None = Inr (testDateFormat_string (units t) None)"
    by (simp add: testDateFormat_def)
  show "testDateFormat (Str ''2024-3-5 9:0:0'') None = Inr (Some [units ''2024-3-5 9:0:0''])"
    by code_simp
  show "testDateFormat (Str ''2024/03/05 09:00:00'') None = Inr None"
    by code_simp
  show "testDateFormat_string (units ''2024-03-05'' @ [12288] @ units ''09:00:00'') None =
     Some [units ''2024-03-05'' @ [12288] @ units ''09:00:00'']"
    by code_simp
qed

lemma whole_seconds: "1000 dvd ts \<Longrightarrow> rat_of_int ts / 1000 = rat_of_int (ts div 1000)"
proof -
  assume "1000 dvd ts"
  then obtain k where "ts = 1000 * k" by (auto simp: dvd_def)
  then show ?thesis by simp
qed

text \<open>
  Claim C6, as the code has it. \<open>strtotime\<close> rejects a negative time value only
  (\<open>ts < 0\<close>): on a host that reads \<open>1970-01-01 00:00:00\<close> as the epoch, time value
  \<open>0\<close>, the result is \<open>0\<close> and not \<open>null\<close>.
\<close>

theorem strtotime_epoch_counterexample:
  "strtotime utc_host (Str ''1970-01-01 00:00:00'') \<noteq> None"
  by code_simp

text \<open>
  Claim C6, amended. \<open>strtotime\<close> returns \<open>null\<close> for a string the date parser
  cannot read and for every pre-epoch date (negative time value). For every string read
  as a time value \<open>ts \<ge> 0\<close>, the epoch itself included, it returns the non-negative
  number \<open>ts / 1000\<close> of seconds since the epoch, which is the integer \<open>ts div 1000\<close>
  when \<open>ts\<close> is a whole number of seconds; at the epoch it returns \<open>0\<close>.
\<close>

theorem strtotime_result:
  "(Date_parse pf (toString d) = None \<longrightarrow> strtotime pf d = None) \<and>
   (\<forall>ts. Date_parse pf (toString d) = Some ts \<and> ts < 0 \<longrightarrow> strtotime pf d = None) \<and>
   (\<forall>ts. Date_parse pf (toString d) = Some ts \<and> 0 \<le> ts \<longrightarrow>
      strtotime pf d = Some (rat_of_int ts / 1000) \<and> 0 \<le> rat_of_int ts / 1000 \<and>
      (1000 dvd ts \<longrightarrow> strtotime pf d = Some (rat_of_int (ts div 1000)))) \<and>
   (Date_parse pf (toString d) = Some 0 \<longrightarrow> strtotime pf d = Some 0)"
  by (auto simp: strtotime_def whole_seconds)

theorem strtotime_result_witness:
  "Date_parse utc_host (toString (Str ''1970-01-01 00:00:00'')) = Some 0 \<and>
   strtotime utc_host (Str ''1970-01-01 00:00:00'') = Some 0 \<and>
   Date_parse utc_host (toString (Str ''1969-12-31 23:59:59'')) = Some (- 1000) \<and>
   strtotime utc_host (Str ''1969-12-31 23:59:59'') = None \<and>
   Date_parse utc_host (toString (Str ''2024-03-05 09:00:00'')) = Some 1709629200000 \<and>
   strtotime utc_host (Str ''2024-03-05 09:00:00'') = Some 1709629200 \<and>
   Date_parse utc_host (toString (Str ''tomorrow'')) = None \<and>
   strtotime utc_host (Str ''tomorrow'') = None"
proof -
  have e: "Date_parse utc_host (toString (Str ''1970-01-01 00:00:00'')) = Some 0"
    by code_simp
  have p: "Date_parse utc_host (toString (Str ''1969-12-31 23:59:59'')) = Some (- 1000)"
    by code_simp
  have l: "Date_parse utc_host (toString (Str ''2024-03-05 09:00:00'')) = Some 1709629200000"
    by code_simp
  have u: "Date_parse utc_host (toString (Str ''tomorrow'')) = None"
    by code_simp
  have "strtotime utc_host (Str ''1970-01-01 00:00:00'') = Some 0"
    using strtotime_result [of utc_host "Str ''1970-01-01 00:00:00''"] e by blast
  moreover have "strtotime utc_host (Str ''1969-12-31 23:59:59'') = None"
    using strtotime_result [of utc_host "Str ''1969-12-31 23:59:59''"] p by simp
  moreover have "strtotime utc_host (Str ''2024-03-05 09:00:00'') = Some 1709629200"
    using strtotime_result [of utc_host "Str ''2024-03-05 09:00:00''"] l by auto
  moreover have "strtotime utc_host (Str ''tomorrow'') = None"
    using strtotime_result [of utc_host "Str ''tomorrow''"] u by blast
  ultimately show ?thesis using e p l u by simp
qed

section \<open>Verification of the Request Executor\<close>

text \<open>
  Claim C8. A call of \<open>request\<close> with a falsy (empty or missing) endpoint, with a
  callback that is not a function, or with a verb that, defaulted to \<open>GET\<close> and put in
  upper case, is not one of \<open>GET\<close>, \<open>PUT\<close>, \<open>POST\<close>, \<open>DELETE\<close> (a verb that is not
  a string included) throws: the outcome is \<open>Threw\<close> whatever the transport would
  answer, so no request is issued.
\<close>

theorem request_validation:
  assumes "\<not> truthy endpoint \<or> (\<exists>c. callback = NotFn c) \<or>
           (\<forall>v. js_or verb (Str ''GET'') = Str v \<longrightarrow> toUpperCase v \<notin> set validVerbs)"
  shows "\<exists>e. \<forall>reply. request pf this endpoint verb args callback reply = Threw e"
proof (cases "truthy endpoint")
  case False
  then show ?thesis by (simp add: request_def)
next
  case ep: True
  show ?thesis
  proof (cases callback)
    case (NotFn c)
    then show ?thesis using ep by (simp add: request_def)
  next
    case (Fn cb)
    with assms ep have v: "\<forall>v. js_or verb (Str ''GET'') = Str v \<longrightarrow> toUpperCase v \<notin> set validVerbs"
      by auto
    show ?thesis
    proof (cases "js_or verb (Str ''GET'')")
      case (Str v)
      with v have "toUpperCase v \<notin> set validVerbs" by simp
      then show ?thesis using ep Fn Str by (simp add: request_def Let_def)
    qed (use ep Fn in \<open>simp_all add: request_def Let_def\<close>)
  qed
qed

theorem request_validation_witness:
  "(\<not> truthy (Str '''') \<and>
    (\<exists>e. \<forall>reply. request utc_host api (Str '''') (Str ''GET'') Null (Fn Delivered) reply = Threw e)) \<and>
   (\<exists>e. \<forall>reply. request utc_host api (Str ''form.json'') (Str ''GET'') Null (NotFn Undefined) reply = Threw e) \<and>
   (js_or (Str ''patch'') (Str ''GET'') = Str ''patch'' \<and> toUpperCase ''patch'' \<notin> set validVerbs \<and>
    (\<exists>e. \<forall>reply. request utc_host api (Str ''form.json'') (Str ''patch'') Null (Fn Delivered) reply = Threw e))"
proof -
  have a: "\<not> truthy (Str '''')" by simp
  have c: "js_or (Str ''patch'') (Str ''GET'') = Str ''patch''" by (simp add: js_or_def)
  have d: "toUpperCase ''patch'' \<notin> set validVerbs" by code_simp
  have 1: "\<exists>e. \<forall>reply. request utc_host api (Str '''') (Str ''GET'') Null (Fn Delivered) reply = Threw e"
    using request_validation [of "Str ''''"] a by blast
  have 2: "\<exists>e. \<forall>reply. request utc_host api (Str ''form.json'') (Str ''GET'') Null (NotFn Undefined) reply = Threw e"
    using request_validation [of _ "NotFn Undefined"] by blast
  have 3: "\<exists>e. \<forall>reply. request utc_host api (Str ''form.json'') (Str ''patch'') Null (Fn Delivered) reply = Threw e"
    using request_validation [of _ _ "Str ''patch''"] c d by auto
  show ?thesis using a c d 1 2 3 by blast
qed

text \<open>Conversely, a call that passes the three checks issues its request.\<close>

lemma request_valid_sends:
  assumes "truthy endpoint" "callback = Fn cb" "js_or verb (Str ''GET'') = Str v"
    "toUpperCase v \<in> set validVerbs"
  shows "\<exists>req. request pf this endpoint verb args callback reply = Requested req (on_reply pf cb reply)"
  using assms by (simp add: request_def Let_def)

lemma request_completed:
  "completed (request pf this endpoint verb0 args (Fn f) reply) = Some c \<Longrightarrow>
   c = on_reply pf f reply"
  unfolding request_def Let_def
  by (cases "js_or verb0 (Str ''GET'')") (auto split: if_splits)

lemma perform_completed:
  assumes "\<not> is_GetForms call"
    and "completed (perform pf this call callback reply) = Some c"
  shows "c = on_reply pf (relay callback) reply"
proof (cases call)
  case (GetForms a)
  with assms(1) show ?thesis by simp
next
  case (GetFormDetails formId)
  with assms(2) show ?thesis
    by (auto simp: getFormDetails_def split: if_splits dest: request_completed)
next
  case (CopyForm formId)
  with assms(2) show ?thesis
    by (auto simp: copyForm_def split: if_splits dest: request_completed)
next
  case (GetSubmissions formId a)
  with assms(2) show ?thesis
    by (auto simp: getSubmissions_def split: if_splits sum.splits dest: request_completed)
next
  case (SubmitForm formId a)
  with assms(2) show ?thesis
    by (auto simp: submitForm_def split: if_splits sum.splits dest: request_completed)
next
  case (GetSubmissionDetails submissionId a)
  with assms(2) show ?thesis
    by (auto simp: getSubmissionDetails_def Let_def split: if_splits dest: request_completed)
next
  case (EditSubmissionData submissionId a)
  with assms(2) show ?thesis
    by (auto simp: editSubmissionData_def split: if_splits sum.splits dest: request_completed)
next
  case (DeleteSubmission submissionId)
  with assms(2) show ?thesis
    by (auto simp: deleteSubmission_def split: if_splits dest: request_completed)
next
  case (CreateField formId a)
  with assms(2) show ?thesis
    by (auto simp: createField_def split: if_splits sum.splits dest: request_completed)
next
  case (GetFields formId)
  with assms(2) show ?thesis
    by (auto simp: getFields_def split: if_splits dest: request_completed)
qed

lemma truthy_populated: "truthy v \<Longrightarrow> populated v"
  by (cases v) (simp_all add: populated_def)

lemma on_reply_Delivered:
  assumes "on_reply pf Delivered reply = Delivered d e"
  shows "(d = Null \<and> populated e) \<or>
         (e = Undefined \<and> (\<exists>status chunks. reply = Response status chunks \<and>
            200 \<le> status \<and> status < 300 \<and> JSON_parse pf (concat chunks) = Some d))"
  using assms unfolding on_reply_def Let_def
  by (cases reply) (auto simp: populated_def split: if_splits option.splits)

lemma on_reply_relay:
  assumes "on_reply pf (relay (Fn Delivered)) reply = Delivered d e"
  shows "(d = Null \<and> populated e) \<or>
         (e = Undefined \<and> (\<exists>status chunks. reply = Response status chunks \<and>
            200 \<le> status \<and> status < 300 \<and> JSON_parse pf (concat chunks) = Some d \<and>
            \<not> api_error d))"
proof (cases reply)
  case (TransportError m)
  with assms show ?thesis
    by (auto simp: on_reply_def relay_def invoke_def api_error_def populated_def)
next
  case (Response status chunks)
  show ?thesis
  proof (cases "status < 200 \<or> status \<ge> 300")
    case True
    with assms Response show ?thesis
      by (auto simp: on_reply_def relay_def invoke_def api_error_def populated_def)
  next
    case False
    show ?thesis
    proof (cases "JSON_parse pf (concat chunks)")
      case None
      with assms Response False show ?thesis by (simp add: on_reply_def)
    next
      case (Some payload)
      show ?thesis
      proof (cases "api_error payload")
        case True
        then have "populated payload" by (simp add: api_error_def truthy_populated)
        with assms Response False Some True show ?thesis
          by (auto simp: on_reply_def relay_def invoke_def)
      next
        case ne: False
        with assms Response False Some show ?thesis
          by (auto simp: on_reply_def relay_def invoke_def)
      qed
    qed
  qed
qed

lemma on_reply_malformed:
  assumes "200 \<le> status" "status < 300" "JSON_parse pf (concat chunks) = None"
  shows "on_reply pf callback (Response status chunks) = Uncaught JsSyntaxError"
  using assms by (simp add: on_reply_def)

lemma request_malformed_uncaught:
  assumes "200 \<le> status" "status < 300" "JSON_parse pf (concat chunks) = None"
    and "completed (request pf this endpoint verb0 args (Fn f) (Response status chunks)) = Some c"
  shows "c = Uncaught JsSyntaxError"
  using request_completed [OF assms(4)] on_reply_malformed [OF assms(1-3)] by simp

text \<open>
  Claim C2, on the code. A response in the success range whose body is not well-formed
  JSON makes \<open>JSON.parse\<close> throw inside the \<open>end\<close> handler, which has no
  \<open>try\<close>: the SyntaxError escapes and the callback is never called, where the claim
  has a failure result delivered. The sibling failure path (status 500) does deliver
  \<open>(null, error)\<close>.
\<close>

theorem request_malformed_json_uncaught:
  \<open>JSON_parse utc_host ''{"status":'' = None \<and>
   completed (request utc_host api (Str ''form.json'') (Str ''GET'') Null (Fn Delivered)
      (Response 200 [''{"status":''])) = Some (Uncaught JsSyntaxError) \<and>
   completed (request utc_host api (Str ''form.json'') (Str ''GET'') Null (Fn Delivered)
      (Response 500 [])) =
     Some (Delivered Null (ErrorObj ''Request failed with status code: 500''))\<close>
  by code_simp

section \<open>Verification of the Resource Methods\<close>

text \<open>
  The bounds of the methods are compared on Number values: the string
  \<open>100.00000000000000001\<close> converts to the double \<open>100\<close>, which is not above \<open>100\<close>.
\<close>

lemma js_gt_rounds_to_double: "\<not> js_gt (Str ''100.00000000000000001'') 100"
  by code_simp

lemma length_mismatch_not_strict_eq:
  "length ids \<noteq> length vals \<Longrightarrow>
   \<not> js_strict_eq (read_prop (Arr ids) ''length'') (read_prop (Arr vals) ''length'')"
  by (simp add: js_strict_eq_def)

lemma getSubmissions_base_mismatch:
  assumes "js_or (lookup (args_or_empty args) ''searchFieldIds'') (Arr []) = Arr ids"
    and "js_or (lookup (args_or_empty args) ''searchFieldValues'') (Arr []) = Arr vals"
    and "length ids \<noteq> length vals"
  shows "\<exists>e. getSubmissions_base pf args = Inl e"
  using assms length_mismatch_not_strict_eq [of ids vals]
  unfolding getSubmissions_base_def Let_def
  by (cases "js_or (lookup (args_or_empty args) ''sort'') (Str ''DESC'')") simp_all

lemma submission_params_mismatch:
  assumes "js_or (lookup (args_or_empty args) ''fieldIds'') (Arr []) = Arr ids"
    and "js_or (lookup (args_or_empty args) ''fieldValues'') (Arr []) = Arr vals"
    and "length ids \<noteq> length vals"
  shows "\<exists>e. submission_params pf args = Inl e"
  using assms length_mismatch_not_strict_eq [of ids vals]
  unfolding submission_params_def Let_def by simp

text \<open>
  Claim C9. When the id array and the value array of \<open>getSubmissions\<close>
  (\<open>searchFieldIds\<close>, \<open>searchFieldValues\<close>), of \<open>submitForm\<close> or of
  \<open>editSubmissionData\<close> (\<open>fieldIds\<close>, \<open>fieldValues\<close>; a missing array counts as
  empty) have different lengths, the call throws whatever the transport would answer: no
  request is issued.
\<close>

theorem mismatched_lengths_throw:
  assumes "length ids \<noteq> length vals"
  shows "(js_or (lookup (args_or_empty args) ''searchFieldIds'') (Arr []) = Arr ids \<and>
          js_or (lookup (args_or_empty args) ''searchFieldValues'') (Arr []) = Arr vals \<longrightarrow>
            (\<exists>e. \<forall>reply. getSubmissions pf this formId args callback reply = Threw e)) \<and>
         (js_or (lookup (args_or_empty args) ''fieldIds'') (Arr []) = Arr ids \<and>
          js_or (lookup (args_or_empty args) ''fieldValues'') (Arr []) = Arr vals \<longrightarrow>
            (\<exists>e. \<forall>reply. submitForm pf this formId args callback reply = Threw e) \<and>
            (\<exists>e. \<forall>reply. editSubmissionData pf this formId args callback reply = Threw e))"
proof (intro conjI impI)
  assume "js_or (lookup (args_or_empty args) ''searchFieldIds'') (Arr []) = Arr ids \<and>
          js_or (lookup (args_or_empty args) ''searchFieldValues'') (Arr []) = Arr vals"
  then obtain e where "getSubmissions_base pf args = Inl e"
    using getSubmissions_base_mismatch assms by blast
  then show "\<exists>e. \<forall>reply. getSubmissions pf this formId args callback reply = Threw e"
    by (cases "isNaN formId") (simp_all add: getSubmissions_def getSubmissions_params_def)
next
  assume "js_or (lookup (args_or_empty args) ''fieldIds'') (Arr []) = Arr ids \<and>
          js_or (lookup (args_or_empty args) ''fieldValues'') (Arr []) = Arr vals"
  then obtain e where e: "submission_params pf args = Inl e"
    using submission_params_mismatch assms by blast
  then show "\<exists>e. \<forall>reply. submitForm pf this formId args callback reply = Threw e"
    by (cases "isNaN formId") (simp_all add: submitForm_def)
  from e show "\<exists>e. \<forall>reply. editSubmissionData pf this formId args callback reply = Threw e"
    by (cases "isNaN formId") (simp_all add: editSubmissionData_def)
qed

theorem mismatched_lengths_throw_witness:
  "length [Num 11, Num 12] \<noteq> length [Str ''a''] \<and>
   (\<exists>e. \<forall>reply. getSubmissions utc_host api (Num 7)
      (Some [(''searchFieldIds'', Arr [Num 11, Num 12]), (''searchFieldValues'', Arr [Str ''a''])])
      (Fn Delivered) reply = Threw e) \<and>
   (\<exists>e. \<forall>reply. submitForm utc_host api (Num 7)
      (Some [(''fieldIds'', Arr [Num 11, Num 12]), (''fieldValues'', Arr [Str ''a''])])
      (Fn Delivered) reply = Threw e) \<and>
   (\<exists>e. \<forall>reply. editSubmissionData utc_host api (Num 7)
      (Some [(''fieldIds'', Arr [Num 11, Num 12]), (''fieldValues'', Arr [Str ''a''])])
      (Fn Delivered) reply = Threw e)"
proof -
  have n: "length [Num 11, Num 12] \<noteq> length [Str ''a'']" by simp
  have 1: "\<exists>e. \<forall>reply. getSubmissions utc_host api (Num 7)
      (Some [(''searchFieldIds'', Arr [Num 11, Num 12]), (''searchFieldValues'', Arr [Str ''a''])])
      (Fn Delivered) reply = Threw e"
    using mismatched_lengths_throw [OF n,
        of "Some [(''searchFieldIds'', Arr [Num 11, Num 12]), (''searchFieldValues'', Arr [Str ''a''])]"
           utc_host api "Num 7" "Fn Delivered"]
    by (simp add: js_or_def lookup_def args_or_empty_def)
  have 2: "(\<exists>e. \<forall>reply. submitForm utc_host api (Num 7)
      (Some [(''fieldIds'', Arr [Num 11, Num 12]), (''fieldValues'', Arr [Str ''a''])])
      (Fn Delivered) reply = Threw e) \<and>
   (\<exists>e. \<forall>reply. editSubmissionData utc_host api (Num 7)
      (Some [(''fieldIds'', Arr [Num 11, Num 12]), (''fieldValues'', Arr [Str ''a''])])
      (Fn Delivered) reply = Threw e)"
    using mismatched_lengths_throw [OF n,
        of "Some [(''fieldIds'', Arr [Num 11, Num 12]), (''fieldValues'', Arr [Str ''a''])]"
           utc_host api "Num 7" "Fn Delivered"]
    by (simp add: js_or_def lookup_def args_or_empty_def)
  show ?thesis using n 1 2 by blast
qed

lemma digit_char_inj:
  assumes "a < 10" "b < 10" "digit_char a = digit_char b"
  shows "a = b"
proof -
  have "distinct ''0123456789ABCDEF''" by simp
  moreover have "a < length ''0123456789ABCDEF''" "b < length ''0123456789ABCDEF''"
    using assms by simp_all
  ultimately show ?thesis
    using assms(3) unfolding digit_char_def by (simp only: nth_eq_iff_index_eq)
qed

lemma string_of_nat_nonempty: "string_of_nat n \<noteq> []"
  by (subst string_of_nat.simps) simp

lemma string_of_nat_inj: "string_of_nat m = string_of_nat n \<Longrightarrow> m = n"
proof (induction m arbitrary: n rule: string_of_nat.induct)
  case (1 m)
  show ?case
  proof (cases "m < 10")
    case mlt: True
    show ?thesis
    proof (cases "n < 10")
      case True
      with mlt "1.prems" show ?thesis
        by (simp add: string_of_nat.simps [of m] string_of_nat.simps [of n] digit_char_inj)
    next
      case False
      with mlt "1.prems" string_of_nat_nonempty [of "n div 10"] show ?thesis
        by (simp add: string_of_nat.simps [of m] string_of_nat.simps [of n])
    qed
  next
    case mge: False
    show ?thesis
    proof (cases "n < 10")
      case True
      with mge "1.prems" string_of_nat_nonempty [of "m div 10"] show ?thesis
        by (simp add: string_of_nat.simps [of m] string_of_nat.simps [of n])
    next
      case False
      with mge "1.prems" have
        eq: "string_of_nat (m div 10) = string_of_nat (n div 10)"
        and d: "digit_char (m mod 10) = digit_char (n mod 10)"
        by (simp_all add: string_of_nat.simps [of m] string_of_nat.simps [of n])
      from "1.IH" [OF mge eq] have "m div 10 = n div 10" .
      moreover from d have "m mod 10 = n mod 10" by (intro digit_char_inj) simp_all
      ultimately show ?thesis by (metis div_mult_mod_eq)
    qed
  qed
qed


lemma obj_set_fresh: "key \<notin> fst ` set params \<Longrightarrow> obj_set params key v = params @ [(key, v)]"
  by (induction params) auto

lemma obj_set_last:
  "key \<notin> fst ` set params \<Longrightarrow> obj_set (params @ [(key, w)]) key v = params @ [(key, v)]"
  by (induction params) auto

lemma search_fields_append:
  assumes "list_all (\<lambda>fId. \<not> isNaN fId) ids"
    and "\<And>j. index \<le> j \<Longrightarrow> ''search_field_'' @ string_of_nat j \<notin> fst ` set params"
  shows "search_fields ids index vs params =
     Inr (params @ map (\<lambda>j. (''search_field_'' @ string_of_nat j, element vs j))
                     [index..<index + length ids])"
  using assms
proof (induction ids arbitrary: index params)
  case Nil
  then show ?case by simp
next
  case (Cons fId rest)
  let ?k = "''search_field_'' @ string_of_nat index"
  let ?p = "params @ [(?k, element vs index)]"
  have fresh: "?k \<notin> fst ` set params" using Cons.prems(2) [of index] by simp
  have step: "obj_set (obj_set params ?k fId) ?k (element vs index) = ?p"
    using fresh by (simp add: obj_set_fresh obj_set_last)
  have fresh': "\<And>j. Suc index \<le> j \<Longrightarrow> ''search_field_'' @ string_of_nat j \<notin> fst ` set ?p"
  proof -
    fix j assume j: "Suc index \<le> j"
    then have "string_of_nat j \<noteq> string_of_nat index" using string_of_nat_inj by fastforce
    moreover have "''search_field_'' @ string_of_nat j \<notin> fst ` set params"
      using Cons.prems(2) [of j] j by simp
    ultimately show "''search_field_'' @ string_of_nat j \<notin> fst ` set ?p" by simp
  qed
  have rest: "list_all (\<lambda>fId. \<not> isNaN fId) rest" and num: "\<not> isNaN fId"
    using Cons.prems(1) by simp_all
  have "search_fields (fId # rest) index vs params = search_fields rest (Suc index) vs ?p"
    using num step by (simp add: Let_def)
  also have "\<dots> = Inr (?p @ map (\<lambda>j. (''search_field_'' @ string_of_nat j, element vs j))
                     [Suc index..<Suc index + length rest])"
    by (rule Cons.IH [OF rest fresh'])
  also have "\<dots> = Inr (params @ map (\<lambda>j. (''search_field_'' @ string_of_nat j, element vs j))
                     [index..<index + length (fId # rest)])"
  proof -
    have "index < index + length (fId # rest)" by simp
    then have "[index..<index + length (fId # rest)] =
        index # [Suc index..<index + length (fId # rest)]"
      by (rule upt_conv_Cons)
    moreover have "index + length (fId # rest) = Suc index + length rest" by simp
    ultimately have u: "[index..<index + length (fId # rest)] =
        index # [Suc index..<Suc index + length rest]" by (simp only:)
    show ?thesis by (simp only: u list.map append_assoc append_Cons append_Nil)
  qed
  finally show ?case .
qed

lemma obj_set_keys: "fst ` set (obj_set params key v) = insert key (fst ` set params)"
proof (induction params)
  case Nil
  show ?case by simp
next
  case (Cons p params)
  obtain k w where p: "p = (k, w)" by (cases p)
  show ?case
  proof (cases "k = key")
    case True
    then show ?thesis using p by auto
  next
    case False
    then have "fst ` set (obj_set (p # params) key v) = insert k (fst ` set (obj_set params key v))"
      using p by simp
    then show ?thesis using Cons.IH p by auto
  qed
qed

lemma set_if_keys:
  "fst ` set params \<subseteq> S \<Longrightarrow> key \<in> S \<Longrightarrow> fst ` set (set_if c key v params) \<subseteq> S"
  by (cases "truthy c") (simp_all add: set_if_def obj_set_keys)


lemma if_Inl_Inr: "(if c then Inl e else x) = Inr b \<Longrightarrow> x = Inr b"
  by (simp split: if_splits)

lemma getSubmissions_base_form:
  assumes "getSubmissions_base pf args = Inr base"
  shows "\<exists>c1 v1 c2 v2 c3 v3 c4 v4 c5 v5 c6 v6 c7 v7 c8 v8.
     base = set_if c8 ''expand_data'' v8 (set_if c7 ''data'' v7 (set_if c6 ''sort'' v6
           (set_if c5 ''per_page'' v5 (set_if c4 ''page'' v4 (set_if c3 ''max_time'' v3
           (set_if c2 ''min_time'' v2 (set_if c1 ''encryption_password'' v1 [])))))))"
proof (cases "js_or (lookup (args_or_empty args) ''sort'') (Str ''DESC'')")
  case (Str sort0)
  show ?thesis
    using assms unfolding getSubmissions_base_def Let_def Str jsval.case
    apply -
    apply (drule if_Inl_Inr)+
    apply (simp only: sum.inject)
    apply (erule subst)
    apply (rule exI)+
    apply (rule refl)
    done
qed (use assms in \<open>simp_all add: getSubmissions_base_def Let_def\<close>)

lemma getSubmissions_base_keys:
  assumes "getSubmissions_base pf args = Inr base"
  shows "fst ` set base \<subseteq>
     {''encryption_password'', ''min_time'', ''max_time'', ''page'', ''per_page'', ''sort'',
      ''data'', ''expand_data''}"
proof -
  obtain c1 v1 c2 v2 c3 v3 c4 v4 c5 v5 c6 v6 c7 v7 c8 v8 where
    "base = set_if c8 ''expand_data'' v8 (set_if c7 ''data'' v7 (set_if c6 ''sort'' v6
           (set_if c5 ''per_page'' v5 (set_if c4 ''page'' v4 (set_if c3 ''max_time'' v3
           (set_if c2 ''min_time'' v2 (set_if c1 ''encryption_password'' v1 [])))))))"
    using getSubmissions_base_form [OF assms] by blast
  then show ?thesis
    by (simp only:) (intro set_if_keys; simp)
qed

lemma search_key_not_base:
  assumes "getSubmissions_base pf args = Inr base"
  shows "''search_field_'' @ x \<notin> fst ` set base"
  using getSubmissions_base_keys [OF assms] by auto


lemma if_Inl_Inr_cond: "(if c then Inl e else x) = Inr b \<Longrightarrow> \<not> c"
  by (simp split: if_splits)

lemma getSubmissions_base_lengths:
  assumes "getSubmissions_base pf args = Inr base"
  shows "js_strict_eq
           (read_prop (js_or (lookup (args_or_empty args) ''searchFieldIds'') (Arr [])) ''length'')
           (read_prop (js_or (lookup (args_or_empty args) ''searchFieldValues'') (Arr [])) ''length'')"
proof (cases "js_or (lookup (args_or_empty args) ''sort'') (Str ''DESC'')")
  case (Str sort0)
  show ?thesis
    using assms unfolding getSubmissions_base_def Let_def Str jsval.case
    apply -
    apply (drule if_Inl_Inr)
    apply (drule if_Inl_Inr)
    apply (drule if_Inl_Inr_cond)
    apply (simp only: not_not)
    done
qed (use assms in \<open>simp_all add: getSubmissions_base_def Let_def\<close>)

lemma lookup_obj_set:
  "lookup (obj_set a key v) name = (if name = key then v else lookup a name)"
  by (induction a) (auto simp: lookup_def)

lemma filter_upt_eq: "i < n \<Longrightarrow> filter (\<lambda>j. j = i) [0..<n] = [i]"
proof (induction n)
  case 0
  then show ?case by simp
next
  case (Suc n)
  show ?case
  proof (cases "i < n")
    case True
    with Suc.IH show ?thesis by simp
  next
    case False
    with Suc.prems have "i = n" by simp
    moreover have "filter (\<lambda>j. j = n) [0..<n] = []" by (simp add: filter_empty_conv)
    ultimately show ?thesis by simp
  qed
qed

lemma search_entries_filter:
  assumes "i < n"
  shows "filter (\<lambda>(k, v). k = ''search_field_'' @ string_of_nat i) (search_entries vals n) =
           [(''search_field_'' @ string_of_nat i, vals ! i)]"
proof -
  have "filter (\<lambda>(k, v). k = ''search_field_'' @ string_of_nat i) (search_entries vals n) =
        map (\<lambda>j. (''search_field_'' @ string_of_nat j, vals ! j))
          (filter (\<lambda>j. string_of_nat j = string_of_nat i) [0..<n])"
    by (simp add: search_entries_def filter_map comp_def)
  also have "(\<lambda>j. string_of_nat j = string_of_nat i) = (\<lambda>j. j = i)"
    using string_of_nat_inj by (intro ext) blast
  finally show ?thesis using assms by (simp add: filter_upt_eq)
qed

lemma search_fields_entries:
  assumes "list_all (\<lambda>fId. \<not> isNaN fId) ids" "length ids = length vals"
    and "\<And>j. ''search_field_'' @ string_of_nat j \<notin> fst ` set params"
  shows "search_fields ids 0 (Arr vals) params = Inr (params @ search_entries vals (length ids))"
proof -
  have "map (\<lambda>j. (''search_field_'' @ string_of_nat j, element (Arr vals) j)) [0..<length ids] =
        search_entries vals (length ids)"
    using assms(2) by (simp add: search_entries_def)
  then show ?thesis
    using search_fields_append [OF assms(1), of 0 params "Arr vals"] assms(3) by simp
qed

lemma filter_key_fresh: "key \<notin> fst ` set kvs \<Longrightarrow> filter (\<lambda>(k, v). k = key) kvs = []"
  by (induction kvs) auto

text \<open>
  Claim C10. In \<open>getSubmissions\<close>, when the checks before the loop pass with the
  parameters \<open>base\<close> and the search field ids are numeric, the two arrays have equal
  length and the parameters handed to \<open>request\<close> are \<open>base\<close> followed, for each
  index \<open>i\<close>, by the key \<open>search_field_<i>\<close> bound to \<open>searchFieldValues[i]\<close>;
  each such key occurs once, with that value; and the parameters are the same for any other
  numeric ids of the same length: the ids do not reach the outgoing parameters.
\<close>

theorem getSubmissions_search_fields:
  assumes base: "getSubmissions_base pf args = Inr base"
    and ids: "js_or (lookup (args_or_empty args) ''searchFieldIds'') (Arr []) = Arr ids"
    and vals: "js_or (lookup (args_or_empty args) ''searchFieldValues'') (Arr []) = Arr vals"
    and numeric: "list_all (\<lambda>fId. \<not> isNaN fId) ids"
  shows "length ids = length vals \<and>
     getSubmissions_params pf args = Inr (base @ search_entries vals (length ids)) \<and>
     (\<forall>i<length ids.
        filter (\<lambda>(k, v). k = ''search_field_'' @ string_of_nat i)
          (base @ search_entries vals (length ids)) =
        [(''search_field_'' @ string_of_nat i, vals ! i)]) \<and>
     (\<forall>ids'. length ids' = length ids \<and> list_all (\<lambda>fId. \<not> isNaN fId) ids' \<longrightarrow>
        getSubmissions_params pf
          (Some (obj_set (args_or_empty args) ''searchFieldIds'' (Arr ids'))) =
        Inr (base @ search_entries vals (length ids))) \<and>
     (\<not> isNaN formId \<longrightarrow>
        getSubmissions pf this formId args callback reply =
        request pf this (js_plus (js_plus (Str ''form/'') formId) (Str ''/submission.json''))
          (Str ''GET'') (Obj (base @ search_entries vals (length ids)))
          (Fn (relay callback)) reply)"
proof -
  have len: "length ids = length vals"
    using getSubmissions_base_lengths [OF base] ids vals by (simp add: js_strict_eq_def)
  have fresh: "\<And>j. ''search_field_'' @ string_of_nat j \<notin> fst ` set base"
    by (rule search_key_not_base [OF base])
  have params: "getSubmissions_params pf args = Inr (base @ search_entries vals (length ids))"
    using base ids vals search_fields_entries [OF numeric len fresh]
    by (simp add: getSubmissions_params_def Let_def)
  have single: "\<forall>i<length ids.
        filter (\<lambda>(k, v). k = ''search_field_'' @ string_of_nat i)
          (base @ search_entries vals (length ids)) =
        [(''search_field_'' @ string_of_nat i, vals ! i)]"
  proof (intro allI impI)
    fix i assume i: "i < length ids"
    have "filter (\<lambda>(k, v). k = ''search_field_'' @ string_of_nat i) base = []"
      using fresh [of i] by (rule filter_key_fresh)
    then show "filter (\<lambda>(k, v). k = ''search_field_'' @ string_of_nat i)
          (base @ search_entries vals (length ids)) =
        [(''search_field_'' @ string_of_nat i, vals ! i)]"
      using search_entries_filter [OF i, of vals] by simp
  qed
  have indep: "\<forall>ids'. length ids' = length ids \<and> list_all (\<lambda>fId. \<not> isNaN fId) ids' \<longrightarrow>
        getSubmissions_params pf
          (Some (obj_set (args_or_empty args) ''searchFieldIds'' (Arr ids'))) =
        Inr (base @ search_entries vals (length ids))"
  proof (intro allI impI)
    fix ids' assume h: "length ids' = length ids \<and> list_all (\<lambda>fId. \<not> isNaN fId) ids'"
    let ?args' = "Some (obj_set (args_or_empty args) ''searchFieldIds'' (Arr ids'))"
    have l: "read_prop (Arr ids') ''length'' = read_prop (Arr ids) ''length''"
      using h by simp
    have a': "args_or_empty ?args' = obj_set (args_or_empty args) ''searchFieldIds'' (Arr ids')"
      by (simp add: args_or_empty_def)
    have o: "js_or (Arr ids') (Arr []) = Arr ids'" by (simp add: js_or_def)
    have b': "getSubmissions_base pf ?args' = getSubmissions_base pf args"
      unfolding getSubmissions_base_def Let_def a' lookup_obj_set
      using l
      by (cases "js_or (lookup (args_or_empty args) ''sort'') (Str ''DESC'')")
         (simp_all add: ids o cong del: if_weak_cong)
    have i': "js_or (lookup (args_or_empty ?args') ''searchFieldIds'') (Arr []) = Arr ids'"
      unfolding a' lookup_obj_set by (simp add: o)
    have v': "js_or (lookup (args_or_empty ?args') ''searchFieldValues'') (Arr []) = Arr vals"
      unfolding a' lookup_obj_set using vals by simp
    have len': "length ids' = length vals" using h len by simp
    show "getSubmissions_params pf ?args' = Inr (base @ search_entries vals (length ids))"
      using b' base i' v' search_fields_entries [of ids' vals base] h len' fresh
      by (simp add: getSubmissions_params_def Let_def)
  qed
  have sent: "\<not> isNaN formId \<longrightarrow>
        getSubmissions pf this formId args callback reply =
        request pf this (js_plus (js_plus (Str ''form/'') formId) (Str ''/submission.json''))
          (Str ''GET'') (Obj (base @ search_entries vals (length ids)))
          (Fn (relay callback)) reply"
    using params by (simp add: getSubmissions_def)
  show ?thesis using len params single indep sent by blast
qed

theorem getSubmissions_search_fields_witness:
  "getSubmissions_base utc_host
     (Some [(''searchFieldIds'', Arr [Num 11, Num 12]),
            (''searchFieldValues'', Arr [Str ''a'', Str ''b''])]) =
     Inr [(''page'', Num 1), (''per_page'', Num 25), (''sort'', Str ''DESC'')] \<and>
   list_all (\<lambda>fId. \<not> isNaN fId) [Num 11, Num 12] \<and>
   getSubmissions_params utc_host
     (Some [(''searchFieldIds'', Arr [Num 11, Num 12]),
            (''searchFieldValues'', Arr [Str ''a'', Str ''b''])]) =
     Inr [(''page'', Num 1), (''per_page'', Num 25), (''sort'', Str ''DESC''),
          (''search_field_0'', Str ''a''), (''search_field_1'', Str ''b'')]"
proof -
  let ?A = "Some [(''searchFieldIds'', Arr [Num 11, Num 12]),
                  (''searchFieldValues'', Arr [Str ''a'', Str ''b''])]"
  let ?B = "[(''page'', Num 1), (''per_page'', Num 25), (''sort'', Str ''DESC'')]"
  have b: "getSubmissions_base utc_host ?A = Inr ?B" by code_simp
  have i: "js_or (lookup (args_or_empty ?A) ''searchFieldIds'') (Arr []) = Arr [Num 11, Num 12]"
    by code_simp
  have v: "js_or (lookup (args_or_empty ?A) ''searchFieldValues'') (Arr []) =
      Arr [Str ''a'', Str ''b'']"
    by code_simp
  have n: "list_all (\<lambda>fId. \<not> isNaN fId) [Num 11, Num 12]" by code_simp
  have e: "?B @ search_entries [Str ''a'', Str ''b''] (length [Num 11, Num 12]) =
      [(''page'', Num 1), (''per_page'', Num 25), (''sort'', Str ''DESC''),
       (''search_field_0'', Str ''a''), (''search_field_1'', Str ''b'')]"
    by code_simp
  have "getSubmissions_params utc_host ?A =
      Inr (?B @ search_entries [Str ''a'', Str ''b''] (length [Num 11, Num 12]))"
    using getSubmissions_search_fields [OF b i v n] by blast
  then show ?thesis using b n e by (simp only:)
qed

lemma getForms_requested:
  "\<exists>req. getForms pf this args callback reply =
     Requested req (on_reply pf (getForms_handler callback) reply)"
  by (simp add: getForms_def request_def Let_def js_or_def validVerbs_def toUpperCase_def
      upper_char_def)

lemma getForms_handler_failure:
  "getForms_handler callback Null err = Uncaught (JsTypeError ''Cannot read properties of null'')"
  by (simp add: getForms_handler_def api_error_def get_prop_def nullish_def)

lemma getForms_handler_api_error:
  "api_error payload \<Longrightarrow>
   getForms_handler callback payload err =
     Uncaught (JsTypeError ''Cannot read properties of null'')"
  by (simp add: getForms_handler_def get_prop_def nullish_def)

lemma getForms_failure_uncaught:
  assumes "reply = TransportError m \<or>
           (\<exists>status chunks. reply = Response status chunks \<and> (status < 200 \<or> 300 \<le> status)) \<or>
           (\<exists>status chunks payload. reply = Response status chunks \<and> 200 \<le> status \<and> status < 300 \<and>
              JSON_parse pf (concat chunks) = Some payload \<and> api_error payload)"
  shows "completed (getForms pf this args callback reply) =
           Some (Uncaught (JsTypeError ''Cannot read properties of null''))"
proof -
  obtain req where "getForms pf this args callback reply =
     Requested req (on_reply pf (getForms_handler callback) reply)"
    using getForms_requested by blast
  moreover have "on_reply pf (getForms_handler callback) reply =
      Uncaught (JsTypeError ''Cannot read properties of null'')"
    using assms
    by (auto simp: on_reply_def getForms_handler_failure getForms_handler_api_error)
  ultimately show ?thesis by simp
qed

lemma relay_api_error_delivered:
  assumes "\<not> is_GetForms call" "200 \<le> status" "status < 300"
    and "JSON_parse pf (concat chunks) = Some payload" "api_error payload"
    and "completed (perform pf this call (Fn Delivered) (Response status chunks)) = Some c"
  shows "c = Delivered Null payload"
  using perform_completed [OF assms(1) assms(6)] assms(2-5)
  by (simp add: on_reply_def relay_def invoke_def)

text \<open>
  Claim C1, on the code. On a response with status 200 whose payload has
  \<open>status: "error"\<close>, the handler of \<open>getForms\<close> sets \<open>data = null\<close> and then reads
  \<open>data.forms\<close>: a TypeError escapes and the caller's function is never called, where
  the claim has a failure result delivered. \<open>getFormDetails\<close> on the same response
  delivers \<open>(null, payload)\<close>. The same TypeError escapes from \<open>getForms\<close> on a
  status 500.
\<close>

theorem getForms_api_error_uncaught:
  \<open>completed (getForms utc_host api None (Fn Delivered)
      (Response 200 [''{"status":"error","message":"x"}''])) =
     Some (Uncaught (JsTypeError ''Cannot read properties of null'')) \<and>
   completed (getFormDetails utc_host api (Num 7) (Fn Delivered)
      (Response 200 [''{"status":"error","message":"x"}''])) =
     Some (Delivered Null (Obj [(''status'', Str ''error''), (''message'', Str ''x'')])) \<and>
   completed (getForms utc_host api None (Fn Delivered) (Response 500 [])) =
     Some (Uncaught (JsTypeError ''Cannot read properties of null''))\<close>
  by code_simp








end
